theory Spec2Isabelle
  imports Complex_Main "HOL-Library.Multiset" "HOL-Library.Char_ord" "HOL-Library.List_Lexorder"
    "HOL-Library.Product_Lexorder"
begin

section \<open>Data model\<close>

text \<open>
  Identifiers. The document database names every record by an ObjectId, which the code
  compares through \<^verbatim>\<open>toString()\<close>, its 24-digit lower-case hexadecimal rendering; an
  ObjectId is modelled by that rendering. The functions on the collections of the database
  are polymorphic in the identifier type.
\<close>

datatype objectId = ObjectId string

fun toString :: "objectId \<Rightarrow> string" where
  "toString (ObjectId h) = h"

text \<open>
  A due date as a request gives it and as a stored record holds it: a string, of which the
  code asks two things. Does it pass \<^verbatim>\<open>isISO8601\<close>, and what time (milliseconds since the
  epoch) does \<^verbatim>\<open>new Date\<close> read in it, if any (\<open>None\<close> is Invalid Date). The two questions
  are independent: \<^verbatim>\<open>'2000/01/01'\<close> is not ISO 8601 and is read as a time, the ISO 8601
  week date \<^verbatim>\<open>'2000-W01-1'\<close> is read as Invalid Date. A Date of the database is written
  \<open>Due True (Some d)\<close>, the string its JSON form is.
\<close>

datatype due_date = Due bool "int option"

text \<open>
  A Task record (models/Task.js, \<^verbatim>\<open>taskSchema\<close>; the in-memory store keeps the same
  fields). Times are milliseconds since the epoch; priority and status are the strings the
  code stores and compares.
\<close>

record 'id task =
  task_id :: 'id
  title :: string
  description :: "string option"
  dueDate :: "due_date option"
  priority :: string
  status :: string
  assignee :: 'id
  createdBy :: 'id
  position :: int
  tags :: "string list"
  isArchived :: bool
  createdAt :: int
  updatedAt :: int

record 'id user =
  user_id :: 'id
  name :: string
  email :: string
  avatarUrl :: "string option"
  isActive :: bool

section \<open>The ownership check (middleware/auth.js, checkResourceOwnership)\<close>

text \<open>
  The value of a JavaScript \<^verbatim>\<open>a && b\<close> whose left operand is a missing field is that
  missing value (null or undefined), not \<^verbatim>\<open>false\<close>; \<open>JNullish\<close> stands for it.
\<close>

datatype jsval = JBool bool | JNullish

fun truthy :: "jsval \<Rightarrow> bool" where
  "truthy (JBool b) = b"
| "truthy JNullish = False"

text \<open>
  A resource is any object with fields that hold user identifiers; a field that is absent
  reads as \<open>None\<close>. A stored task always carries both fields (the schema requires them).
\<close>

type_synonym resource = "string \<rightharpoonup> objectId"

definition task_resource :: "objectId task \<Rightarrow> resource" where
  "task_resource t = [''assignee'' \<mapsto> assignee t, ''createdBy'' \<mapsto> createdBy t]"

text \<open>
  \<^verbatim>\<open>req.checkOwnership = (resource) => { if (!resource) return false; ... return isAssignee || isCreator; }\<close>
  with \<^verbatim>\<open>resourceUserField\<close> the field named when the middleware is installed and
  \<open>uid\<close> the acting user's \<^verbatim>\<open>req.user._id\<close>.
\<close>

definition checkOwnership :: "string \<Rightarrow> objectId \<Rightarrow> resource option \<Rightarrow> jsval" where
  "checkOwnership resourceUserField uid resource =
     (case resource of
        None \<Rightarrow> JBool False
      | Some r \<Rightarrow>
          (let isAssignee = (case r resourceUserField of
                               None \<Rightarrow> JNullish
                             | Some a \<Rightarrow> JBool (toString a = toString uid));
               isCreator = (case r ''createdBy'' of
                              None \<Rightarrow> JNullish
                            | Some c \<Rightarrow> JBool (toString c = toString uid))
           in if truthy isAssignee then isAssignee else isCreator))"

text \<open>The router installs the middleware as \<^verbatim>\<open>checkResourceOwnership()\<close>: the default field.\<close>

definition req_checkOwnership :: "objectId \<Rightarrow> objectId task option \<Rightarrow> jsval" where
  "req_checkOwnership uid t = checkOwnership ''assignee'' uid (map_option task_resource t)"

section \<open>The in-memory store (utils/memoryStore.js)\<close>

text \<open>
  The store numbers its users and tasks from two counters. An identifier that a request
  names is kept as the request gives it: the assignee of a task is the number of the
  acting user, or the string of the request's body. The store compares identifiers with
  \<^verbatim>\<open>==\<close>: two numbers and two strings by their values, a number and a string by the
  number that the string converts to.
\<close>

datatype js_id = Num nat | Str string

text \<open>
  The number a string converts to, for the strings that can reach the store: those that
  \<^verbatim>\<open>isMongoId\<close> admits, made of hexadecimal digits after an optional prefix. Such a string
  is a hexadecimal, binary or octal literal, or decimal digits with an optional exponent;
  any other is NaN (\<open>None\<close>). The conversion yields a double; it is compared here with
  identifiers below \<open>2^53\<close>, which a double holds exactly and which no greater number
  rounds to, so the exact number decides the comparison.
\<close>

definition isDigit :: "char \<Rightarrow> bool" where
  "isDigit c \<longleftrightarrow> c \<in> set ''0123456789''"

definition isHexDigit :: "char \<Rightarrow> bool" where
  "isHexDigit c \<longleftrightarrow> c \<in> set ''0123456789abcdefABCDEF''"

definition digit_value :: "char \<Rightarrow> nat" where
  "digit_value c =
     (if isDigit c then of_char c - of_char CHR ''0''
      else if c \<in> set ''abcdef'' then of_char c - of_char CHR ''a'' + 10
      else of_char c - of_char CHR ''A'' + 10)"

definition literal_value :: "nat \<Rightarrow> string \<Rightarrow> nat" where
  "literal_value base s = foldl (\<lambda>n c. base * n + digit_value c) 0 s"

definition decimal_literal :: "string \<Rightarrow> nat option" where
  "decimal_literal s =
     (let mantissa = takeWhile isDigit s; rest = dropWhile isDigit s
      in if mantissa = [] then None
         else case rest of
                [] \<Rightarrow> Some (literal_value 10 mantissa)
              | e # ex \<Rightarrow>
                  if (e = CHR ''e'' \<or> e = CHR ''E'') \<and> ex \<noteq> [] \<and> list_all isDigit ex
                  then Some (literal_value 10 mantissa * 10 ^ literal_value 10 ex)
                  else None)"

definition prefixed_literal :: "nat \<Rightarrow> (char \<Rightarrow> bool) \<Rightarrow> string \<Rightarrow> nat option" where
  "prefixed_literal base ok digits =
     (if digits \<noteq> [] \<and> list_all ok digits then Some (literal_value base digits) else None)"

definition js_number :: "string \<Rightarrow> nat option" where
  "js_number s =
     (case s of
        [] \<Rightarrow> Some 0
      | [c] \<Rightarrow> decimal_literal s
      | c0 # c1 # digits \<Rightarrow>
          if c0 = CHR ''0'' \<and> (c1 = CHR ''x'' \<or> c1 = CHR ''X'') then prefixed_literal 16 isHexDigit digits
          else if c0 = CHR ''0'' \<and> (c1 = CHR ''b'' \<or> c1 = CHR ''B'')
            then prefixed_literal 2 (\<lambda>c. c \<in> set ''01'') digits
          else if c0 = CHR ''0'' \<and> (c1 = CHR ''o'' \<or> c1 = CHR ''O'')
            then prefixed_literal 8 (\<lambda>c. c \<in> set ''01234567'') digits
          else decimal_literal s)"

fun loose_eq :: "js_id \<Rightarrow> js_id \<Rightarrow> bool" where
  "loose_eq (Num a) (Num b) = (a = b)"
| "loose_eq (Str a) (Str b) = (a = b)"
| "loose_eq (Num a) (Str s) = (js_number s = Some a)"
| "loose_eq (Str s) (Num a) = (js_number s = Some a)"

record memoryStore =
  users :: "js_id user list"
  tasks :: "js_id task list"
  userIdCounter :: nat
  taskIdCounter :: nat

text \<open>\<^verbatim>\<open>users.findById\<close>, \<^verbatim>\<open>tasks.findByAssignee\<close> and \<^verbatim>\<open>tasks.findById\<close>\<close>

definition users_findById :: "js_id user list \<Rightarrow> js_id \<Rightarrow> js_id user option" where
  "users_findById us i = find (\<lambda>u. loose_eq (user_id u) i) us"

definition tasks_findByAssignee :: "js_id task list \<Rightarrow> js_id \<Rightarrow> js_id task list" where
  "tasks_findByAssignee ts assigneeId =
     filter (\<lambda>t. loose_eq (assignee t) assigneeId \<and> \<not> isArchived t) ts"

definition tasks_findById :: "js_id task list \<Rightarrow> js_id \<Rightarrow> js_id task option" where
  "tasks_findById ts i = find (\<lambda>t. loose_eq (task_id t) i) ts"

section \<open>The document collections (the calls the code makes on the Task and User models)\<close>

text \<open>
  A collection is the list of its documents. A query object is the record of the fields
  the code puts in it; a field left out constrains nothing.
\<close>

record 'id task_query =
  qy_assignee :: "'id option"
  qy_priority :: "string option"
  qy_status :: "string option"
  qy_isArchived :: "bool option"

fun agrees :: "'a option \<Rightarrow> 'a \<Rightarrow> bool" where
  "agrees None v = True"
| "agrees (Some w) v = (v = w)"

definition matches :: "'id task_query \<Rightarrow> 'id task \<Rightarrow> bool" where
  "matches q t \<longleftrightarrow>
     agrees (qy_assignee q) (assignee t) \<and> agrees (qy_priority q) (priority t) \<and>
     agrees (qy_status q) (status t) \<and> agrees (qy_isArchived q) (isArchived t)"

definition find_docs :: "'id task_query \<Rightarrow> 'id task list \<Rightarrow> 'id task list" where
  "find_docs q coll = filter (matches q) coll"

definition countDocuments :: "'id task_query \<Rightarrow> 'id task list \<Rightarrow> nat" where
  "countDocuments q coll = length (filter (matches q) coll)"

definition findById :: "'id task list \<Rightarrow> 'id \<Rightarrow> 'id task option" where
  "findById coll i = find (\<lambda>t. task_id t = i) coll"

text \<open>\<^verbatim>\<open>User.findById\<close>\<close>

definition User_findById :: "'id user list \<Rightarrow> 'id \<Rightarrow> 'id user option" where
  "User_findById us i = find (\<lambda>u. user_id u = i) us"

text \<open>
  \<^verbatim>\<open>.sort({ priority: 1, position: 1, createdAt: -1 })\<close>: ascending on the priority
  field, which is a string and is compared as one (byte by byte), then ascending on the
  position, then descending on the creation time. The database fixes no order between
  documents that agree on all three; here they keep their order in the collection.
\<close>

definition sort_priority_position_createdAt :: "'id task list \<Rightarrow> 'id task list" where
  "sort_priority_position_createdAt ds =
     sort_key (\<lambda>t. (priority t, position t, - createdAt t)) ds"

text \<open>\<^verbatim>\<open>.sort({ position: 1, createdAt: -1 })\<close>\<close>

definition sort_position_createdAt :: "'id task list \<Rightarrow> 'id task list" where
  "sort_position_createdAt ds = sort_key (\<lambda>t. (position t, - createdAt t)) ds"

text \<open>
  How a request fails: the 404, 403 and 400 responses the handlers and the validation
  middleware send, and \<open>Thrown\<close> for an exception that a handler passes to \<^verbatim>\<open>next\<close>.
\<close>

datatype failure =
    NotFound string
  | AccessDenied string
  | ValidationFailed "(string \<times> string) list"
  | Thrown string

text \<open>
  \<^verbatim>\<open>.skip(n)\<close>: the database rejects a negative skip, and the handler passes the error on.
  \<^verbatim>\<open>.limit(n)\<close>: zero means no limit, and a negative limit is read as its absolute value.
\<close>

definition skip_docs :: "int \<Rightarrow> 'a list \<Rightarrow> failure + 'a list" where
  "skip_docs n ds = (if n < 0 then Inl (Thrown ''skip'') else Inr (drop (nat n) ds))"

definition limit_docs :: "int \<Rightarrow> 'a list \<Rightarrow> 'a list" where
  "limit_docs n ds = (if n = 0 then ds else take (nat \<bar>n\<bar>) ds)"

text \<open>
  \<^verbatim>\<open>.populate(path, select)\<close>: in the response the identifier of the assignee and of the
  creator is replaced by the document of the user it names, cut down to its identifier and
  the selected fields, or by null (\<open>None\<close>) when there is no such user. The selection is
  \<^verbatim>\<open>'name email avatarUrl'\<close> or \<^verbatim>\<open>'name email'\<close>: \<open>withAvatar\<close> tells which.
\<close>

record 'id user_ref =
  ref_id :: 'id
  ref_name :: string
  ref_email :: string
  ref_avatarUrl :: "string option"

definition select_user :: "bool \<Rightarrow> 'id user \<Rightarrow> 'id user_ref" where
  "select_user withAvatar u =
     \<lparr>ref_id = user_id u, ref_name = name u, ref_email = email u,
      ref_avatarUrl = (if withAvatar then avatarUrl u else None)\<rparr>"

record 'id task_view =
  tv_task :: "'id task"
  tv_assignee :: "'id user_ref option"
  tv_createdBy :: "'id user_ref option"

definition populate_select :: "bool \<Rightarrow> bool \<Rightarrow> 'id user list \<Rightarrow> 'id task \<Rightarrow> 'id task_view" where
  "populate_select assigneeAvatar creatorAvatar us t =
     \<lparr>tv_task = t,
      tv_assignee = map_option (select_user assigneeAvatar) (User_findById us (assignee t)),
      tv_createdBy = map_option (select_user creatorAvatar) (User_findById us (createdBy t))\<rparr>"

text \<open>
  \<^verbatim>\<open>.populate('assignee', 'name email avatarUrl').populate('createdBy', 'name email')\<close>, of
  the listing queries, and
  \<^verbatim>\<open>.populate('assignee', 'name email avatarUrl').populate('createdBy', 'name email avatarUrl')\<close>,
  of the handlers of one task.
\<close>

definition populate_listed :: "'id user list \<Rightarrow> 'id task \<Rightarrow> 'id task_view" where
  "populate_listed us t = populate_select True False us t"

definition populate :: "'id user list \<Rightarrow> 'id task \<Rightarrow> 'id task_view" where
  "populate us t = populate_select True True us t"

section \<open>Listing and the board (controllers/taskController.js, getTasks; models/Task.js)\<close>

text \<open>
  The query string of \<^verbatim>\<open>GET /api/tasks\<close>. Page and limit are the integers their strings
  denote (the code reads them with \<^verbatim>\<open>parseInt\<close> and by numeric coercion, which agree on
  integers); absent, they default to 1 and 15.
\<close>

record tasks_request =
  rq_page :: "int option"
  rq_limit :: "int option"
  rq_priority :: "string option"
  rq_status :: "string option"
  rq_board :: "string option"

fun or_default :: "'a \<Rightarrow> 'a option \<Rightarrow> 'a" where
  "or_default d None = d"
| "or_default d (Some v) = v"

text \<open>\<^verbatim>\<open>if (priority)\<close>: an absent parameter and the empty string are both falsy.\<close>

fun provided :: "string option \<Rightarrow> string option" where
  "provided None = None"
| "provided (Some v) = (if v = [] then None else Some v)"

text \<open>
  A lane of the board and a response of the listing hold tasks as the branch returns them:
  populated documents from the database, stored records from the in-memory store.
\<close>

record 'item lane =
  lane_tasks :: "'item list"
  totalCount :: nat
  hasMore :: bool

text \<open>
  \<^verbatim>\<open>totalPages\<close> is \<^verbatim>\<open>Math.ceil(totalTasks / limit)\<close>; with a limit of zero the quotient is
  Infinity or NaN (\<open>None\<close> here), and \<^verbatim>\<open>page < Infinity\<close> holds while \<^verbatim>\<open>page < NaN\<close>
  does not.
\<close>

record pagination =
  page :: int
  limit :: int
  totalPages :: "int option"
  totalTasks :: nat
  hasNext :: bool
  hasPrev :: bool

definition paginate :: "int \<Rightarrow> int \<Rightarrow> nat \<Rightarrow> pagination" where
  "paginate pg lmt total_n =
     (let totalPages = (if lmt = 0 then None
                        else Some \<lceil>(of_nat total_n :: real) / of_int lmt\<rceil>)
      in \<lparr>page = pg, limit = lmt, totalPages = totalPages, totalTasks = total_n,
          hasNext = (case totalPages of None \<Rightarrow> total_n > 0 | Some n \<Rightarrow> pg < n),
          hasPrev = (pg > 1)\<rparr>)"

datatype 'item tasks_response =
    Board "(string \<times> 'item lane) list"
  | Listing "'item list" pagination

definition priorities :: "string list" where
  "priorities = [''high'', ''medium'', ''low'', ''backlog'']"

text \<open>\<^verbatim>\<open>taskSchema.statics.getTasksByPriority\<close>\<close>

definition getTasksByPriority ::
  "'id user list \<Rightarrow> 'id task list \<Rightarrow> 'id \<Rightarrow> string \<Rightarrow> int \<Rightarrow> int \<Rightarrow> failure + 'id task_view list" where
  "getTasksByPriority us coll assigneeId p pg lmt =
     (let skip = (pg - 1) * lmt;
          found = find_docs \<lparr>qy_assignee = Some assigneeId, qy_priority = Some p,
                            qy_status = None, qy_isArchived = Some False\<rparr> coll
      in map_sum id (\<lambda>ds. map (populate_listed us) (limit_docs lmt ds))
           (skip_docs skip (sort_position_createdAt found)))"

text \<open>
  \<^verbatim>\<open>taskSchema.statics.getBoardData\<close>: the loop over the four priorities, stopping at the
  first query that fails.
\<close>

fun getBoardData_loop ::
  "'id user list \<Rightarrow> 'id task list \<Rightarrow> 'id \<Rightarrow> int \<Rightarrow> string list
     \<Rightarrow> failure + (string \<times> 'id task_view lane) list" where
  "getBoardData_loop us coll assigneeId lmt [] = Inr []"
| "getBoardData_loop us coll assigneeId lmt (p # ps) =
     (case getTasksByPriority us coll assigneeId p 1 lmt of
        Inl e \<Rightarrow> Inl e
      | Inr ts \<Rightarrow>
          (let total_n = countDocuments \<lparr>qy_assignee = Some assigneeId, qy_priority = Some p,
                                      qy_status = None, qy_isArchived = Some False\<rparr> coll
           in case getBoardData_loop us coll assigneeId lmt ps of
                Inl e \<Rightarrow> Inl e
              | Inr rest \<Rightarrow>
                  Inr ((p, \<lparr>lane_tasks = ts, totalCount = total_n,
                            hasMore = (int total_n > lmt)\<rparr>) # rest)))"

definition getBoardData ::
  "'id user list \<Rightarrow> 'id task list \<Rightarrow> 'id \<Rightarrow> int \<Rightarrow> failure + (string \<times> 'id task_view lane) list" where
  "getBoardData us coll assigneeId lmt = getBoardData_loop us coll assigneeId lmt priorities"

text \<open>
  \<^verbatim>\<open>getTasks\<close>, the branch taken when the database is connected, on the users and the
  tasks of the database.
\<close>

definition getTasks_mongo ::
  "'id user list \<Rightarrow> 'id task list \<Rightarrow> 'id \<Rightarrow> tasks_request \<Rightarrow> failure + 'id task_view tasks_response" where
  "getTasks_mongo us coll userId rq =
     (let pg = or_default 1 (rq_page rq); lmt = or_default 15 (rq_limit rq) in
      if rq_board rq = Some ''true'' then map_sum id Board (getBoardData us coll userId lmt)
      else
        (let query = \<lparr>qy_assignee = Some userId, qy_priority = provided (rq_priority rq),
                      qy_status = provided (rq_status rq), qy_isArchived = Some False\<rparr>;
             skip = (pg - 1) * lmt
         in case skip_docs skip (sort_priority_position_createdAt (find_docs query coll)) of
              Inl e \<Rightarrow> Inl e
            | Inr ds \<Rightarrow>
                Inr (Listing (map (populate_listed us) (limit_docs lmt ds))
                       (paginate pg lmt (countDocuments query coll)))))"

text \<open>\<^verbatim>\<open>Array.prototype.slice(start, end)\<close>: a negative index counts from the end.\<close>

definition js_slice :: "'a list \<Rightarrow> int \<Rightarrow> int \<Rightarrow> 'a list" where
  "js_slice xs s e =
     (let n = int (length xs);
          start = (if s < 0 then max (n + s) 0 else min s n);
          stop = (if e < 0 then max (n + e) 0 else min e n)
      in take (nat (stop - start)) (drop (nat start) xs))"

fun filter_by :: "('id task \<Rightarrow> string) \<Rightarrow> string option \<Rightarrow> 'id task list \<Rightarrow> 'id task list" where
  "filter_by field None ts = ts"
| "filter_by field (Some v) ts = filter (\<lambda>t. field t = v) ts"

text \<open>
  \<^verbatim>\<open>getTasks\<close>, the branch that reads the in-memory store; \<open>userId\<close> is the number of the
  acting user.
\<close>

definition getTasks_memory ::
  "js_id task list \<Rightarrow> nat \<Rightarrow> tasks_request \<Rightarrow> failure + js_id task tasks_response" where
  "getTasks_memory store userId rq =
     (let pg = or_default 1 (rq_page rq); lmt = or_default 15 (rq_limit rq);
          ts0 = tasks_findByAssignee store (Num userId);
          ts1 = filter_by priority (provided (rq_priority rq)) ts0;
          ts = filter_by status (provided (rq_status rq)) ts1
      in if rq_board rq = Some ''true'' then
           Inr (Board (map (\<lambda>p. (p, \<lparr>lane_tasks = js_slice (filter (\<lambda>t. priority t = p) ts) 0 lmt,
                                      totalCount = length (filter (\<lambda>t. priority t = p) ts),
                                      hasMore = (int (length (filter (\<lambda>t. priority t = p) ts)) > lmt)\<rparr>))
                           priorities))
         else
           (let skip = (pg - 1) * lmt
            in Inr (Listing (js_slice ts skip (skip + lmt)) (paginate pg lmt (length ts)))))"

text \<open>
  The tasks a list request selects: the acting user's, not archived, matching each filter
  that the request provides. In the database the user's tasks are those whose assignee is
  the user's identifier; in the in-memory store, those whose assignee is \<^verbatim>\<open>==\<close> to the
  user's number.
\<close>

abbreviation selects :: "'id \<Rightarrow> tasks_request \<Rightarrow> 'id task \<Rightarrow> bool" where
  "selects uid rq t \<equiv>
     assignee t = uid \<and> \<not> isArchived t \<and> agrees (provided (rq_priority rq)) (priority t) \<and>
     agrees (provided (rq_status rq)) (status t)"

abbreviation selects_memory :: "nat \<Rightarrow> tasks_request \<Rightarrow> js_id task \<Rightarrow> bool" where
  "selects_memory uid rq t \<equiv>
     loose_eq (assignee t) (Num uid) \<and> \<not> isArchived t \<and>
     agrees (provided (rq_priority rq)) (priority t) \<and> agrees (provided (rq_status rq)) (status t)"

section \<open>Request validation (middleware/validation.js)\<close>

text \<open>The JSON body of a create or update request.\<close>

record task_body =
  b_title :: "string option"
  b_description :: "string option"
  b_dueDate :: "due_date option"
  b_priority :: "string option"
  b_status :: "string option"
  b_assignee :: "string option"
  b_tags :: "string list option"

definition is_space :: "char \<Rightarrow> bool" where
  "is_space c \<longleftrightarrow> c \<in> set [CHR '' '', CHR 0x09, CHR 0x0A, CHR 0x0B, CHR 0x0C, CHR 0x0D]"

definition trim :: "string \<Rightarrow> string" where
  "trim s = rev (dropWhile is_space (rev (dropWhile is_space s)))"

text \<open>
  \<^verbatim>\<open>isHexadecimal\<close> is the pattern \<^verbatim>\<open>/^(0x|0h)?[0-9A-F]+$/i\<close>: hexadecimal digits after an
  optional prefix. \<^verbatim>\<open>isMongoId\<close> asks for it and for a length of 24.
\<close>

definition isHexadecimal :: "string \<Rightarrow> bool" where
  "isHexadecimal s \<longleftrightarrow>
     (s \<noteq> [] \<and> list_all isHexDigit s) \<or>
     (case s of
        c0 # c1 # digits \<Rightarrow>
          c0 = CHR ''0'' \<and> c1 \<in> set ''xXhH'' \<and> digits \<noteq> [] \<and> list_all isHexDigit digits
      | _ \<Rightarrow> False)"

definition isMongoId :: "string \<Rightarrow> bool" where
  "isMongoId s \<longleftrightarrow> isHexadecimal s \<and> length s = 24"

definition status_values :: "string list" where
  "status_values = [''pending'', ''in-progress'', ''completed'']"

text \<open>
  \<^verbatim>\<open>validateTask\<close>: the chain of each field, in order, each contributing its errors as
  pairs of the field's name and the message. \<open>now\<close> is the clock when the chain runs.
\<close>

definition validate_title :: "task_body \<Rightarrow> (string \<times> string) list" where
  "validate_title b =
     (let v = trim (or_default [] (b_title b))
      in if 1 \<le> length v \<and> length v \<le> 200 then []
         else [(''title'', ''Title must be between 1 and 200 characters'')])"

definition validate_description :: "task_body \<Rightarrow> (string \<times> string) list" where
  "validate_description b =
     (case b_description b of
        None \<Rightarrow> []
      | Some d \<Rightarrow> if length (trim d) \<le> 1000 then []
                  else [(''description'', ''Description cannot exceed 1000 characters'')])"

text \<open>
  The chain of the due date runs both of its checks: \<^verbatim>\<open>isISO8601\<close>, and the custom one,
  \<^verbatim>\<open>if (value && new Date(value) <= new Date()) throw ...\<close>. When \<^verbatim>\<open>new Date(value)\<close> is
  Invalid Date the comparison is false and the custom check passes.
\<close>

definition validate_dueDate :: "int \<Rightarrow> task_body \<Rightarrow> (string \<times> string) list" where
  "validate_dueDate now b =
     (case b_dueDate b of
        None \<Rightarrow> []
      | Some (Due isoOk tm) \<Rightarrow>
          (if isoOk then [] else [(''dueDate'', ''Due date must be a valid date'')]) @
          (case tm of
             None \<Rightarrow> []
           | Some d \<Rightarrow> if d \<le> now then [(''dueDate'', ''Due date must be in the future'')] else []))"

definition validate_priority :: "task_body \<Rightarrow> (string \<times> string) list" where
  "validate_priority b =
     (case b_priority b of
        None \<Rightarrow> []
      | Some p \<Rightarrow> if p \<in> set priorities then []
                  else [(''priority'', ''Priority must be high, medium, low, or backlog'')])"

definition validate_status :: "task_body \<Rightarrow> (string \<times> string) list" where
  "validate_status b =
     (case b_status b of
        None \<Rightarrow> []
      | Some s \<Rightarrow> if s \<in> set status_values then []
                  else [(''status'', ''Status must be pending, in-progress, or completed'')])"

definition validate_assignee :: "task_body \<Rightarrow> (string \<times> string) list" where
  "validate_assignee b =
     (case b_assignee b of
        None \<Rightarrow> []
      | Some a \<Rightarrow> if isMongoId a then []
                  else [(''assignee'', ''Assignee must be a valid user ID'')])"

definition validate_tags :: "task_body \<Rightarrow> (string \<times> string) list" where
  "validate_tags b =
     (case b_tags b of
        None \<Rightarrow> []
      | Some ts \<Rightarrow>
          if length ts > 10 then [(''tags'', ''Cannot have more than 10 tags'')]
          else if list_ex (\<lambda>tag. length tag > 30) ts
               then [(''tags'', ''Each tag must be a string with maximum 30 characters'')]
          else [])"

definition validateTask :: "int \<Rightarrow> task_body \<Rightarrow> (string \<times> string) list" where
  "validateTask now b =
     validate_title b @ validate_description b @ validate_dueDate now b @ validate_priority b @
     validate_status b @ validate_assignee b @ validate_tags b"

text \<open>
  The body as a handler finds it behind \<^verbatim>\<open>validateTask\<close>: the title is there and trimmed,
  the description trimmed, the other fields as the request gave them.
\<close>

record task_input =
  i_title :: string
  i_description :: "string option"
  i_dueDate :: "due_date option"
  i_priority :: "string option"
  i_status :: "string option"
  i_assignee :: "string option"
  i_tags :: "string list option"

definition validated_body :: "task_body \<Rightarrow> task_input" where
  "validated_body b =
     \<lparr>i_title = trim (or_default [] (b_title b)),
      i_description = map_option trim (b_description b),
      i_dueDate = b_dueDate b,
      i_priority = b_priority b, i_status = b_status b, i_assignee = b_assignee b,
      i_tags = b_tags b\<rparr>"

text \<open>\<^verbatim>\<open>validateTaskStatus\<close>, on the status of the body.\<close>

definition validateTaskStatus :: "string option \<Rightarrow> (string \<times> string) list" where
  "validateTaskStatus st =
     (if or_default [] st \<in> set status_values then []
      else [(''status'', ''Status must be pending, in-progress, or completed'')])"

section \<open>Writes on the document collection\<close>

text \<open>
  A string that names a document is cast to an ObjectId: 24 hexadecimal digits, read
  without regard to case. The cast of any other string that \<^verbatim>\<open>isMongoId\<close> admits fails,
  and the query throws.
\<close>

definition lower_hex :: "char \<Rightarrow> char" where
  "lower_hex c = (if c \<in> set ''ABCDEF'' then char_of (of_char c + (32 :: nat)) else c)"

definition castObjectId :: "string \<Rightarrow> objectId option" where
  "castObjectId s =
     (if length s = 24 \<and> list_all isHexDigit s then Some (ObjectId (map lower_hex s)) else None)"

text \<open>
  The Date that the schema casts a due date to. The cast fails on Invalid Date, which
  the validators below report on the path.
\<close>

fun stored_date :: "due_date \<Rightarrow> due_date" where
  "stored_date (Due isoOk tm) = Due True tm"

text \<open>
  The schema's validators (models/Task.js), as the names of the paths that fail. They run
  on the whole document at \<^verbatim>\<open>Task.create\<close>.
\<close>

definition schema_errors :: "int \<Rightarrow> 'id task \<Rightarrow> string list" where
  "schema_errors now t =
     (if title t = [] \<or> length (title t) > 200 then [''title''] else []) @
     (case description t of
        None \<Rightarrow> []
      | Some d \<Rightarrow> if length d > 1000 then [''description''] else []) @
     (case dueDate t of
        None \<Rightarrow> []
      | Some (Due isoOk None) \<Rightarrow> [''dueDate'']
      | Some (Due isoOk (Some d)) \<Rightarrow> if d > now then [] else [''dueDate'']) @
     (if priority t \<in> set priorities then [] else [''priority'']) @
     (if status t \<in> set status_values then [] else [''status'']) @
     (if list_ex (\<lambda>tag. length tag > 30) (tags t) then [''tags''] else [])"

text \<open>
  An update object: the fields it sets. A field the handler leaves undefined is not part
  of the update.
\<close>

record 'id task_patch =
  p_title :: "string option"
  p_description :: "string option"
  p_dueDate :: "due_date option"
  p_priority :: "string option"
  p_status :: "string option"
  p_assignee :: "'id option"
  p_tags :: "string list option"
  p_position :: "int option"

text \<open>
  The validators that \<^verbatim>\<open>runValidators: true\<close> runs on an update: those of the paths the
  update sets, on the values it sets.
\<close>

definition update_errors :: "int \<Rightarrow> 'id task_patch \<Rightarrow> string list" where
  "update_errors now p =
     (case p_title p of
        None \<Rightarrow> []
      | Some v \<Rightarrow> if trim v = [] \<or> length (trim v) > 200 then [''title''] else []) @
     (case p_description p of
        None \<Rightarrow> []
      | Some d \<Rightarrow> if length (trim d) > 1000 then [''description''] else []) @
     (case p_dueDate p of
        None \<Rightarrow> []
      | Some (Due isoOk None) \<Rightarrow> [''dueDate'']
      | Some (Due isoOk (Some d)) \<Rightarrow> if d > now then [] else [''dueDate'']) @
     (case p_priority p of
        None \<Rightarrow> []
      | Some v \<Rightarrow> if v \<in> set priorities then [] else [''priority'']) @
     (case p_status p of
        None \<Rightarrow> []
      | Some v \<Rightarrow> if v \<in> set status_values then [] else [''status'']) @
     (case p_tags p of
        None \<Rightarrow> []
      | Some ts \<Rightarrow> if list_ex (\<lambda>tag. length (trim tag) > 30) ts then [''tags''] else [])"

text \<open>The document after the update; \<^verbatim>\<open>timestamps: true\<close> stamps \<open>updatedAt\<close>.\<close>

definition apply_patch :: "int \<Rightarrow> 'id task_patch \<Rightarrow> 'id task \<Rightarrow> 'id task" where
  "apply_patch now p t =
     t\<lparr>title := or_default (title t) (map_option trim (p_title p)),
       description := (case p_description p of None \<Rightarrow> description t | Some d \<Rightarrow> Some (trim d)),
       dueDate := (case p_dueDate p of None \<Rightarrow> dueDate t | Some d \<Rightarrow> Some (stored_date d)),
       priority := or_default (priority t) (p_priority p),
       status := or_default (status t) (p_status p),
       assignee := or_default (assignee t) (p_assignee p),
       tags := or_default (tags t) (map_option (map trim) (p_tags p)),
       position := or_default (position t) (p_position p),
       updatedAt := now\<rparr>"

fun update_first :: "('a \<Rightarrow> bool) \<Rightarrow> ('a \<Rightarrow> 'a) \<Rightarrow> 'a list \<Rightarrow> 'a list" where
  "update_first P f [] = []"
| "update_first P f (x # xs) = (if P x then f x # xs else x # update_first P f xs)"

fun remove_first :: "('a \<Rightarrow> bool) \<Rightarrow> 'a list \<Rightarrow> 'a list" where
  "remove_first P [] = []"
| "remove_first P (x # xs) = (if P x then xs else x # remove_first P xs)"

text \<open>
  \<^verbatim>\<open>Task.findByIdAndUpdate(id, update, { new: true, runValidators: true })\<close>: the validators
  of the paths the update sets run first and make the call throw (\<open>Inl\<close>, nothing written);
  otherwise the document of that identifier, if any, is updated and returned.
\<close>

definition findByIdAndUpdate ::
  "int \<Rightarrow> 'id task list \<Rightarrow> 'id \<Rightarrow> 'id task_patch \<Rightarrow> (string list + 'id task option) \<times> 'id task list" where
  "findByIdAndUpdate now coll i p =
     (if update_errors now p \<noteq> [] then (Inl (update_errors now p), coll)
      else case findById coll i of
             None \<Rightarrow> (Inr None, coll)
           | Some t \<Rightarrow>
               (Inr (Some (apply_patch now p t)),
                update_first (\<lambda>d. task_id d = i) (apply_patch now p) coll))"

definition findByIdAndDelete :: "'id task list \<Rightarrow> 'id \<Rightarrow> 'id task list" where
  "findByIdAndDelete coll i = remove_first (\<lambda>d. task_id d = i) coll"

text \<open>
  \<^verbatim>\<open>Task.findOne(query).sort({ position: -1 })\<close>: a matching document of greatest position.
\<close>

definition findOne_sort_position_desc :: "'id task_query \<Rightarrow> 'id task list \<Rightarrow> 'id task option" where
  "findOne_sort_position_desc q coll =
     (case sort_key (\<lambda>t. - position t) (find_docs q coll) of [] \<Rightarrow> None | t # _ \<Rightarrow> Some t)"

record 'id database =
  db_users :: "'id user list"
  db_tasks :: "'id task list"

section \<open>Task handlers (controllers/taskController.js)\<close>

text \<open>
  \<^verbatim>\<open>createTask\<close>, the branch taken when the database is connected. \<open>fresh\<close> is the
  identifier the database gives the new document, \<open>now\<close> the clock at the write.
\<close>

definition createTask_mongo ::
  "int \<Rightarrow> objectId \<Rightarrow> objectId database \<Rightarrow> objectId \<Rightarrow> task_input
     \<Rightarrow> (failure + objectId task_view) \<times> objectId database" where
  "createTask_mongo now fresh db uid body =
     (let prio = or_default ''backlog'' (i_priority body);
          stat = or_default ''pending'' (i_status body);
          tgs = or_default [] (i_tags body)
      in case (case provided (i_assignee body) of None \<Rightarrow> Some uid | Some a \<Rightarrow> castObjectId a) of
           None \<Rightarrow> (Inl (Thrown ''CastError''), db)
         | Some taskAssignee \<Rightarrow>
             (case User_findById (db_users db) taskAssignee of
                None \<Rightarrow> (Inl (NotFound ''Assignee user not found''), db)
              | Some assigneeUser \<Rightarrow>
                  (let lastTask = findOne_sort_position_desc
                                    \<lparr>qy_assignee = Some taskAssignee, qy_priority = Some prio,
                                     qy_status = None, qy_isArchived = Some False\<rparr> (db_tasks db);
                       pos = (case lastTask of None \<Rightarrow> 0 | Some lt \<Rightarrow> position lt + 1);
                       task = \<lparr>task_id = fresh, title = trim (i_title body),
                               description = map_option trim (i_description body),
                               dueDate = map_option stored_date (i_dueDate body),
                               priority = prio, status = stat,
                               assignee = taskAssignee, createdBy = uid, position = pos,
                               tags = map trim tgs, isArchived = False, createdAt = now,
                               updatedAt = now\<rparr>
                   in if schema_errors now task \<noteq> [] then (Inl (Thrown ''ValidationError''), db)
                      else (Inr (populate (db_users db) task),
                            db\<lparr>db_tasks := db_tasks db @ [task]\<rparr>))))"

text \<open>\<^verbatim>\<open>memoryStore.tasks.create(taskData)\<close>\<close>

definition tasks_create :: "int \<Rightarrow> memoryStore \<Rightarrow> js_id task \<Rightarrow> js_id task \<times> memoryStore" where
  "tasks_create now st taskData =
     (let task = taskData\<lparr>task_id := Num (taskIdCounter st), createdAt := now, updatedAt := now,
                          isArchived := False\<rparr>
      in (task, st\<lparr>tasks := tasks st @ [task], taskIdCounter := taskIdCounter st + 1\<rparr>))"

text \<open>
  \<^verbatim>\<open>createTask\<close>, the branch that writes the in-memory store; \<open>uid\<close> is the number of the
  acting user. The assignee is stored as the request gives it. The fields that
  \<^verbatim>\<open>tasks.create\<close> sets itself are placeholders in \<open>taskData\<close>.
\<close>

definition createTask_memory ::
  "int \<Rightarrow> memoryStore \<Rightarrow> nat \<Rightarrow> task_input \<Rightarrow> (failure + js_id task_view) \<times> memoryStore" where
  "createTask_memory now st uid body =
     (let prio = or_default ''backlog'' (i_priority body);
          stat = or_default ''pending'' (i_status body);
          tgs = or_default [] (i_tags body);
          taskAssignee = (case provided (i_assignee body) of None \<Rightarrow> Num uid | Some a \<Rightarrow> Str a)
      in case users_findById (users st) taskAssignee of
           None \<Rightarrow> (Inl (NotFound ''Assignee user not found''), st)
         | Some assigneeUser \<Rightarrow>
             (let existingTasks = filter (\<lambda>t. priority t = prio)
                                    (tasks_findByAssignee (tasks st) taskAssignee);
                  pos = int (length existingTasks);
                  (task, st') = tasks_create now st
                     \<lparr>task_id = Num 0, title = i_title body, description = i_description body,
                      dueDate = i_dueDate body, priority = prio, status = stat,
                      assignee = taskAssignee, createdBy = Num uid, position = pos,
                      tags = tgs, isArchived = False, createdAt = 0, updatedAt = 0\<rparr>
              in case users_findById (users st') (Num uid) of
                   None \<Rightarrow> (Inl (Thrown ''TypeError''), st')
                 | Some creator \<Rightarrow>
                     (Inr \<lparr>tv_task = task, tv_assignee = Some (select_user True assigneeUser),
                           tv_createdBy = Some (select_user True creator)\<rparr>, st')))"

text \<open>\<^verbatim>\<open>router.route('/').post(validateTask, createTask)\<close>, on each backend.\<close>

definition post_task_mongo ::
  "int \<Rightarrow> int \<Rightarrow> objectId \<Rightarrow> objectId database \<Rightarrow> objectId \<Rightarrow> task_body
     \<Rightarrow> (failure + objectId task_view) \<times> objectId database" where
  "post_task_mongo now now' fresh db uid body =
     (if validateTask now body \<noteq> [] then (Inl (ValidationFailed (validateTask now body)), db)
      else createTask_mongo now' fresh db uid (validated_body body))"

definition post_task_memory ::
  "int \<Rightarrow> int \<Rightarrow> memoryStore \<Rightarrow> nat \<Rightarrow> task_body \<Rightarrow> (failure + js_id task_view) \<times> memoryStore" where
  "post_task_memory now now' st uid body =
     (if validateTask now body \<noteq> [] then (Inl (ValidationFailed (validateTask now body)), st)
      else createTask_memory now' st uid (validated_body body))"

text \<open>
  \<^verbatim>\<open>updateTask\<close>. It reads and writes the document collection only. An absent field of the
  body is an undefined field of the update.
\<close>

definition updateTask ::
  "int \<Rightarrow> objectId database \<Rightarrow> objectId \<Rightarrow> objectId \<Rightarrow> task_input
     \<Rightarrow> (failure + objectId task_view option) \<times> objectId database" where
  "updateTask now db uid tid body =
     (case findById (db_tasks db) tid of
        None \<Rightarrow> (Inl (NotFound ''Task not found''), db)
      | Some task \<Rightarrow>
          if \<not> truthy (req_checkOwnership uid (Some task)) then
            (Inl (AccessDenied ''Access denied. You can only modify tasks assigned to you or created by you.''), db)
          else
            (case (case i_assignee body of
                     None \<Rightarrow> Some None
                   | Some a \<Rightarrow> map_option Some (castObjectId a)) of
               None \<Rightarrow> (Inl (Thrown ''CastError''), db)
             | Some newAssignee \<Rightarrow>
                 if (case provided (i_assignee body) of
                       None \<Rightarrow> False
                     | Some a \<Rightarrow> a \<noteq> toString (assignee task) \<and>
                                Option.bind newAssignee (User_findById (db_users db)) = None) then
                   (Inl (NotFound ''Assignee user not found''), db)
                 else
                   (case findByIdAndUpdate now (db_tasks db) tid
                           \<lparr>p_title = Some (i_title body), p_description = i_description body,
                            p_dueDate = i_dueDate body, p_priority = i_priority body,
                            p_status = i_status body, p_assignee = newAssignee,
                            p_tags = i_tags body, p_position = None\<rparr> of
                      (Inl errs, coll) \<Rightarrow> (Inl (Thrown ''ValidationError''), db)
                    | (Inr updated, coll) \<Rightarrow>
                        (Inr (map_option (populate (db_users db)) updated),
                         db\<lparr>db_tasks := coll\<rparr>))))"

text \<open>\<^verbatim>\<open>router.route('/:id').put(validateTask, updateTask)\<close>\<close>

definition put_task ::
  "int \<Rightarrow> int \<Rightarrow> objectId database \<Rightarrow> objectId \<Rightarrow> objectId \<Rightarrow> task_body
     \<Rightarrow> (failure + objectId task_view option) \<times> objectId database" where
  "put_task now now' db uid tid body =
     (if validateTask now body \<noteq> [] then (Inl (ValidationFailed (validateTask now body)), db)
      else updateTask now' db uid tid (validated_body body))"

text \<open>\<^verbatim>\<open>updateTaskStatus\<close>, with the status of the request's body.\<close>

definition updateTaskStatus ::
  "int \<Rightarrow> objectId database \<Rightarrow> objectId \<Rightarrow> objectId \<Rightarrow> string option
     \<Rightarrow> (failure + objectId task_view option) \<times> objectId database" where
  "updateTaskStatus now db uid tid stat =
     (case findById (db_tasks db) tid of
        None \<Rightarrow> (Inl (NotFound ''Task not found''), db)
      | Some task \<Rightarrow>
          if \<not> truthy (req_checkOwnership uid (Some task)) then
            (Inl (AccessDenied ''Access denied. You can only modify tasks assigned to you or created by you.''), db)
          else
            (case findByIdAndUpdate now (db_tasks db) tid
                    \<lparr>p_title = None, p_description = None, p_dueDate = None, p_priority = None,
                     p_status = stat, p_assignee = None, p_tags = None, p_position = None\<rparr> of
               (Inl errs, coll) \<Rightarrow> (Inl (Thrown ''ValidationError''), db)
             | (Inr updated, coll) \<Rightarrow>
                 (Inr (map_option (populate (db_users db)) updated), db\<lparr>db_tasks := coll\<rparr>)))"

text \<open>\<^verbatim>\<open>router.route('/:id/status').patch(validateTaskStatus, updateTaskStatus)\<close>\<close>

definition patch_task_status ::
  "int \<Rightarrow> objectId database \<Rightarrow> objectId \<Rightarrow> objectId \<Rightarrow> string option
     \<Rightarrow> (failure + objectId task_view option) \<times> objectId database" where
  "patch_task_status now db uid tid stat =
     (if validateTaskStatus stat \<noteq> [] then (Inl (ValidationFailed (validateTaskStatus stat)), db)
      else updateTaskStatus now db uid tid stat)"

text \<open>\<^verbatim>\<open>deleteTask\<close>. It reads and writes the document collection only.\<close>

definition deleteTask ::
  "objectId database \<Rightarrow> objectId \<Rightarrow> objectId \<Rightarrow> (failure + string) \<times> objectId database" where
  "deleteTask db uid tid =
     (case findById (db_tasks db) tid of
        None \<Rightarrow> (Inl (NotFound ''Task not found''), db)
      | Some task \<Rightarrow>
          if \<not> truthy (req_checkOwnership uid (Some task)) then
            (Inl (AccessDenied ''Access denied. You can only delete tasks assigned to you or created by you.''), db)
          else (Inr ''Task deleted successfully'',
                db\<lparr>db_tasks := findByIdAndDelete (db_tasks db) tid\<rparr>))"

text \<open>
  The access test that \<^verbatim>\<open>getTask\<close> makes on the populated task:
  \<^verbatim>\<open>task.assignee && (task.assignee._id == req.user._id || task.assignee == req.user._id) ||
  task.createdBy && (task.createdBy._id == req.user._id || task.createdBy == req.user._id)\<close>.
  \<open>eq\<close> is \<^verbatim>\<open>==\<close> between the identifier of a populated user and that of the acting
  user. The second comparison of each pair has the populated user itself on the left, an
  object that is \<^verbatim>\<open>==\<close> to no number and to no other object: it is false.
\<close>

definition canAccess :: "('id \<Rightarrow> 'id \<Rightarrow> bool) \<Rightarrow> 'id task_view \<Rightarrow> 'id \<Rightarrow> jsval" where
  "canAccess eq v uid =
     (let byAssignee = (case tv_assignee v of
                          None \<Rightarrow> JNullish
                        | Some a \<Rightarrow> JBool (eq (ref_id a) uid \<or> False));
          byCreator = (case tv_createdBy v of
                         None \<Rightarrow> JNullish
                       | Some c \<Rightarrow> JBool (eq (ref_id c) uid \<or> False))
      in if truthy byAssignee then byAssignee else byCreator)"

text \<open>The part of \<^verbatim>\<open>getTask\<close> that its two branches share: the 404, the 403, the task.\<close>

definition getTask_checked ::
  "('id \<Rightarrow> 'id \<Rightarrow> bool) \<Rightarrow> 'id task_view option \<Rightarrow> 'id \<Rightarrow> failure + 'id task_view" where
  "getTask_checked eq task uid =
     (case task of
        None \<Rightarrow> Inl (NotFound ''Task not found'')
      | Some v \<Rightarrow>
          if \<not> truthy (canAccess eq v uid) then
            Inl (AccessDenied ''Access denied. You can only view tasks assigned to you or created by you.'')
          else Inr v)"

text \<open>
  \<^verbatim>\<open>==\<close> between two objects is their identity: it holds only of an object and itself.
  In the database branch of \<^verbatim>\<open>getTask\<close> both identifiers are ObjectId objects. The one on
  the left is made by the query of this request when it populates the task, the one on
  the right, \<^verbatim>\<open>req.user._id\<close>, was made by \<^verbatim>\<open>authenticate\<close> before the handler ran. They are
  two objects whatever their values, and the comparison is false.
\<close>

definition object_identity :: "objectId \<Rightarrow> objectId \<Rightarrow> bool" where
  "object_identity populated_id req_user_id \<longleftrightarrow> False"

text \<open>\<^verbatim>\<open>getTask\<close>, the branch taken when the database is connected.\<close>

definition getTask_mongo ::
  "objectId database \<Rightarrow> objectId \<Rightarrow> objectId \<Rightarrow> failure + objectId task_view" where
  "getTask_mongo db uid tid =
     getTask_checked object_identity
       (map_option (populate (db_users db)) (findById (db_tasks db) tid)) uid"

text \<open>
  \<^verbatim>\<open>getTask\<close>, the branch that reads the in-memory store; \<open>uid\<close> is the number of the
  acting user and \<open>tid\<close> the number that the path names. The identifiers that the access
  test compares are numbers.
\<close>

definition getTask_memory :: "memoryStore \<Rightarrow> nat \<Rightarrow> nat \<Rightarrow> failure + js_id task_view" where
  "getTask_memory st uid tid =
     getTask_checked loose_eq
       (case tasks_findById (tasks st) (Num tid) of
          None \<Rightarrow> None
        | Some task \<Rightarrow>
            Some \<lparr>tv_task = task,
                  tv_assignee = map_option (select_user True) (users_findById (users st) (assignee task)),
                  tv_createdBy = map_option (select_user True) (users_findById (users st) (createdBy task))\<rparr>)
       (Num uid)"

section \<open>The same records in the two stores\<close>


section \<open>Example data\<close>

definition alice :: objectId where
  "alice = ObjectId ''64b7f0a1c2d3e4f5a6b7c801''"

definition bob :: objectId where
  "bob = ObjectId ''64b7f0a1c2d3e4f5a6b7c802''"

definition example_user :: "'id \<Rightarrow> string \<Rightarrow> 'id user" where
  "example_user i n = \<lparr>user_id = i, name = n, email = n @ ''@example.com'', avatarUrl = None,
                        isActive = True\<rparr>"

definition example_users :: "objectId user list" where
  "example_users = [example_user alice ''alice'', example_user bob ''bob'']"

definition listed_doc ::
  "string \<Rightarrow> string \<Rightarrow> string \<Rightarrow> objectId \<Rightarrow> int \<Rightarrow> bool \<Rightarrow> int \<Rightarrow> objectId task" where
  "listed_doc i p s a pos arch c =
     \<lparr>task_id = ObjectId i, title = ''task'', description = None, dueDate = None, priority = p,
      status = s, assignee = a, createdBy = a, position = pos, tags = [],
      isArchived = arch, createdAt = c, updatedAt = c\<rparr>"

definition example_task ::
  "nat \<Rightarrow> string \<Rightarrow> string \<Rightarrow> nat \<Rightarrow> int \<Rightarrow> bool \<Rightarrow> int \<Rightarrow> js_id task" where
  "example_task i p s a pos arch c =
     \<lparr>task_id = Num i, title = ''task'', description = None, dueDate = None, priority = p,
      status = s, assignee = Num a, createdBy = Num a, position = pos, tags = [],
      isArchived = arch, createdAt = c, updatedAt = c\<rparr>"

definition example_docs :: "objectId task list" where
  "example_docs =
     [listed_doc ''64b7f0a1c2d3e4f5a6b7c811'' ''low'' ''pending'' alice 0 False 10,
      listed_doc ''64b7f0a1c2d3e4f5a6b7c812'' ''high'' ''completed'' alice 0 False 20,
      listed_doc ''64b7f0a1c2d3e4f5a6b7c813'' ''backlog'' ''pending'' alice 0 False 30,
      listed_doc ''64b7f0a1c2d3e4f5a6b7c814'' ''medium'' ''pending'' alice 0 False 40,
      listed_doc ''64b7f0a1c2d3e4f5a6b7c815'' ''high'' ''pending'' bob 0 False 50]"

definition example_tasks :: "js_id task list" where
  "example_tasks =
     [example_task 11 ''low'' ''pending'' 1 0 False 10,
      example_task 12 ''high'' ''completed'' 1 0 False 20,
      example_task 13 ''backlog'' ''pending'' 1 0 False 30,
      example_task 14 ''medium'' ''pending'' 1 0 False 40,
      example_task 15 ''high'' ''pending'' 2 0 False 50]"


definition plain_request :: tasks_request where
  "plain_request = \<lparr>rq_page = None, rq_limit = None, rq_priority = None, rq_status = None,
                     rq_board = None\<rparr>"

definition example_doc :: "string \<Rightarrow> string \<Rightarrow> objectId \<Rightarrow> int \<Rightarrow> bool \<Rightarrow> objectId task" where
  "example_doc i p a pos arch =
     \<lparr>task_id = ObjectId i, title = ''task'', description = None, dueDate = None, priority = p,
      status = ''pending'', assignee = a, createdBy = a, position = pos, tags = [],
      isArchived = arch, createdAt = 10, updatedAt = 10\<rparr>"

definition example_db :: "objectId database" where
  "example_db =
     \<lparr>db_users = example_users,
      db_tasks = [example_doc ''64b7f0a1c2d3e4f5a6b7c8a1'' ''low'' bob 1 False,
                  example_doc ''64b7f0a1c2d3e4f5a6b7c8a2'' ''high'' bob 0 True]\<rparr>"

definition example_store :: memoryStore where
  "example_store =
     \<lparr>users = [example_user (Num 1) ''alice'', example_user (Num 2) ''bob''],
      tasks = [example_task 1 ''low'' ''pending'' 2 1 False 10,
               example_task 2 ''high'' ''pending'' 2 0 True 20],
      userIdCounter = 3, taskIdCounter = 3\<rparr>"

definition example_body :: task_body where
  "example_body = \<lparr>b_title = Some ''write report'', b_description = None, b_dueDate = None,
                    b_priority = Some ''low'', b_status = None, b_assignee = None, b_tags = None\<rparr>"





section \<open>The ownership check\<close>

lemma toString_inject: "toString a = toString b \<longleftrightarrow> a = b"
  by (cases a; cases b) simp

lemma req_checkOwnership_Some:
  "req_checkOwnership uid (Some t) = JBool (uid = assignee t \<or> uid = createdBy t)"
  by (auto simp: req_checkOwnership_def checkOwnership_def task_resource_def toString_inject)

lemma req_checkOwnership_truthy:
  "truthy (req_checkOwnership uid (Some t)) \<longleftrightarrow> uid = assignee t \<or> uid = createdBy t"
  by (simp add: req_checkOwnership_Some)

lemma req_checkOwnership_None: "req_checkOwnership uid None = JBool False"
  by (simp add: req_checkOwnership_def checkOwnership_def)

section \<open>Selection, windows and pages of the listing\<close>

lemma filter_by_agrees: "filter_by f v ts = filter (\<lambda>t. agrees v (f t)) ts"
  by (cases v) simp_all

lemma memory_selection:
  "filter_by status (provided (rq_status rq))
     (filter_by priority (provided (rq_priority rq)) (tasks_findByAssignee store (Num uid)))
   = filter (selects_memory uid rq) store"
  by (simp add: filter_by_agrees tasks_findByAssignee_def conj_ac cong: conj_cong)

lemma mongo_selection:
  "find_docs \<lparr>qy_assignee = Some uid, qy_priority = provided (rq_priority rq),
              qy_status = provided (rq_status rq), qy_isArchived = Some False\<rparr> coll
   = filter (selects uid rq) coll"
  unfolding find_docs_def
  by (rule filter_cong) (auto simp: matches_def)

lemma mongo_count:
  "countDocuments \<lparr>qy_assignee = Some uid, qy_priority = provided (rq_priority rq),
              qy_status = provided (rq_status rq), qy_isArchived = Some False\<rparr> coll
   = length (filter (selects uid rq) coll)"
  using mongo_selection [of uid rq coll] by (simp add: countDocuments_def find_docs_def)

lemma js_slice_window:
  assumes "0 \<le> s" "0 \<le> n"
  shows "js_slice xs s (s + n) = take (nat n) (drop (nat s) xs)"
proof (cases "s \<le> int (length xs)")
  case True
  with assms have "js_slice xs s (s + n) = take (nat (min (s + n) (int (length xs)) - s)) (drop (nat s) xs)"
    by (simp add: js_slice_def Let_def min_def)
  also have "\<dots> = take (nat n) (drop (nat s) xs)"
  proof (cases "s + n \<le> int (length xs)")
    case True then show ?thesis by (simp add: min_def)
  next
    case False
    with True assms have "length (drop (nat s) xs) \<le> nat n" "length (drop (nat s) xs) \<le> nat (min (s + n) (int (length xs)) - s)" by (auto simp: min_def)
    then show ?thesis by simp
  qed
  finally show ?thesis .
next
  case False
  with assms show ?thesis by (simp add: js_slice_def Let_def min_def)
qed

lemma getTasks_memory_listing:
  assumes "rq_board rq \<noteq> Some ''true''" "1 \<le> or_default 1 (rq_page rq)" "1 \<le> or_default 15 (rq_limit rq)"
  shows "getTasks_memory store uid rq =
     Inr (Listing (take (nat (or_default 15 (rq_limit rq)))
                     (drop (nat ((or_default 1 (rq_page rq) - 1) * or_default 15 (rq_limit rq)))
                        (filter (selects_memory uid rq) store)))
            (paginate (or_default 1 (rq_page rq)) (or_default 15 (rq_limit rq))
               (length (filter (selects_memory uid rq) store))))"
proof -
  from assms(2,3) have skip: "0 \<le> (or_default 1 (rq_page rq) - 1) * or_default 15 (rq_limit rq)"
    and lim: "0 \<le> or_default 15 (rq_limit rq)" by simp_all
  show ?thesis
    using assms(1) js_slice_window [OF skip lim, of "filter (selects_memory uid rq) store"]
    by (simp add: getTasks_memory_def Let_def memory_selection)
qed

lemma getTasks_mongo_listing:
  assumes "rq_board rq \<noteq> Some ''true''" "1 \<le> or_default 1 (rq_page rq)" "1 \<le> or_default 15 (rq_limit rq)"
  shows "getTasks_mongo us coll uid rq =
     Inr (Listing (map (populate_listed us)
                     (take (nat (or_default 15 (rq_limit rq)))
                        (drop (nat ((or_default 1 (rq_page rq) - 1) * or_default 15 (rq_limit rq)))
                           (sort_priority_position_createdAt (filter (selects uid rq) coll)))))
            (paginate (or_default 1 (rq_page rq)) (or_default 15 (rq_limit rq))
               (length (filter (selects uid rq) coll))))"
proof -
  from assms(2,3) have "\<not> (or_default 1 (rq_page rq) - 1) * or_default 15 (rq_limit rq) < 0"
    by (simp add: not_less)
  moreover from assms(3) have "or_default 15 (rq_limit rq) \<noteq> 0" "0 \<le> or_default 15 (rq_limit rq)"
    by simp_all
  ultimately show ?thesis
    using assms(1)
    by (simp add: getTasks_mongo_def Let_def mongo_selection mongo_count skip_docs_def limit_docs_def)
qed

lemma ceil_bounds:
  fixes n :: nat and l :: int
  assumes "1 \<le> l"
  shows "(\<lceil>real n / real_of_int l\<rceil> - 1) * l < int n \<and> int n \<le> \<lceil>real n / real_of_int l\<rceil> * l"
proof -
  let ?k = "\<lceil>real n / real_of_int l\<rceil>"
  from assms have l: "0 < real_of_int l" by simp
  have lo: "real_of_int ?k - 1 < real n / real_of_int l" by linarith
  have hi: "real n / real_of_int l \<le> real_of_int ?k" by linarith
  from lo l have "(real_of_int ?k - 1) * real_of_int l < real n"
    by (simp only: pos_less_divide_eq)
  moreover from hi l have "real n \<le> real_of_int ?k * real_of_int l"
    by (simp only: pos_divide_le_eq)
  ultimately
  have "real_of_int ((?k - 1) * l) < real_of_int (int n)" "real_of_int (int n) \<le> real_of_int (?k * l)"
    by simp_all
  then show ?thesis by (simp only: of_int_less_iff of_int_le_iff)
qed

lemma beyond_last_page:
  fixes n :: nat and l p :: int
  assumes "1 \<le> l" "\<lceil>real n / real_of_int l\<rceil> < p"
  shows "n \<le> nat ((p - 1) * l)"
proof -
  let ?k = "\<lceil>real n / real_of_int l\<rceil>"
  from assms have "?k \<le> p - 1" by simp
  with assms(1) have "?k * l \<le> (p - 1) * l" by (simp add: mult_right_mono)
  with ceil_bounds [OF assms(1), of n] have "int n \<le> (p - 1) * l" by linarith
  then show ?thesis by simp
qed

lemma paginate_simps:
  "l \<noteq> 0 \<Longrightarrow> paginate p l n =
     \<lparr>page = p, limit = l, totalPages = Some \<lceil>real n / real_of_int l\<rceil>, totalTasks = n,
      hasNext = (p < \<lceil>real n / real_of_int l\<rceil>), hasPrev = (1 < p)\<rparr>"
  by (simp add: paginate_def Let_def)

lemma paginate_facts:
  fixes n :: nat and l p :: int
  assumes "1 \<le> l"
  shows "page (paginate p l n) = p \<and> limit (paginate p l n) = l \<and> totalTasks (paginate p l n) = n \<and>
         totalPages (paginate p l n) = Some \<lceil>real n / real_of_int l\<rceil> \<and>
         (\<lceil>real n / real_of_int l\<rceil> - 1) * l < int n \<and> int n \<le> \<lceil>real n / real_of_int l\<rceil> * l \<and>
         hasNext (paginate p l n) = (p < \<lceil>real n / real_of_int l\<rceil>) \<and>
         hasPrev (paginate p l n) = (1 < p)"
proof -
  from assms have "l \<noteq> 0" by simp
  then show ?thesis
    using ceil_bounds [OF assms, of n] by (simp add: paginate_simps)
qed

text \<open>
  Claim C5. For a list query with page \<open>P \<ge> 1\<close> and limit \<open>L \<ge> 1\<close>, on either backend, with
  \<open>N\<close> the number of tasks that the query selects there: the total pages are \<open>\<lceil>N / L\<rceil>\<close> (the
  least number of pages of \<open>L\<close> that hold \<open>N\<close> tasks), \<open>hasNext\<close> is \<open>P < totalPages\<close>, \<open>hasPrev\<close> is
  \<open>P > 1\<close>, and a page beyond the last is an empty list with \<open>hasNext\<close> false, not an error.
\<close>

theorem list_pagination_metadata:
  fixes coll :: "'id task list" and us :: "'id user list" and uid :: 'id
    and store :: "js_id task list" and who :: nat and rq :: tasks_request
  defines "P \<equiv> or_default 1 (rq_page rq)" and "L \<equiv> or_default 15 (rq_limit rq)"
    and "N \<equiv> length (filter (selects uid rq) coll)"
    and "M \<equiv> length (filter (selects_memory who rq) store)"
  assumes list: "rq_board rq \<noteq> Some ''true''" and page: "1 \<le> P" and lim: "1 \<le> L"
  shows "(\<exists>ts m.
           getTasks_mongo us coll uid rq = Inr (Listing ts m) \<and>
           page m = P \<and> limit m = L \<and> totalTasks m = N \<and>
           totalPages m = Some \<lceil>real N / real_of_int L\<rceil> \<and>
           (\<lceil>real N / real_of_int L\<rceil> - 1) * L < int N \<and> int N \<le> \<lceil>real N / real_of_int L\<rceil> * L \<and>
           hasNext m = (P < \<lceil>real N / real_of_int L\<rceil>) \<and>
           hasPrev m = (1 < P) \<and>
           (\<lceil>real N / real_of_int L\<rceil> < P \<longrightarrow> ts = [] \<and> \<not> hasNext m))
       \<and> (\<exists>ts m.
           getTasks_memory store who rq = Inr (Listing ts m) \<and>
           page m = P \<and> limit m = L \<and> totalTasks m = M \<and>
           totalPages m = Some \<lceil>real M / real_of_int L\<rceil> \<and>
           (\<lceil>real M / real_of_int L\<rceil> - 1) * L < int M \<and> int M \<le> \<lceil>real M / real_of_int L\<rceil> * L \<and>
           hasNext m = (P < \<lceil>real M / real_of_int L\<rceil>) \<and>
           hasPrev m = (1 < P) \<and>
           (\<lceil>real M / real_of_int L\<rceil> < P \<longrightarrow> ts = [] \<and> \<not> hasNext m))"
proof (rule conjI)
  let ?S = "sort_priority_position_createdAt (filter (selects uid rq) coll)"
  have mongo: "getTasks_mongo us coll uid rq =
      Inr (Listing (map (populate_listed us) (take (nat L) (drop (nat ((P - 1) * L)) ?S)))
             (paginate P L N))"
    using getTasks_mongo_listing [OF list, of us coll uid] page lim by (simp add: P_def L_def N_def)
  have empty: "map (populate_listed us) (take (nat L) (drop (nat ((P - 1) * L)) ?S)) = []"
    if "\<lceil>real N / real_of_int L\<rceil> < P"
    using beyond_last_page [OF lim that]
    by (simp add: sort_priority_position_createdAt_def N_def)
  show "\<exists>ts m.
           getTasks_mongo us coll uid rq = Inr (Listing ts m) \<and>
           page m = P \<and> limit m = L \<and> totalTasks m = N \<and>
           totalPages m = Some \<lceil>real N / real_of_int L\<rceil> \<and>
           (\<lceil>real N / real_of_int L\<rceil> - 1) * L < int N \<and> int N \<le> \<lceil>real N / real_of_int L\<rceil> * L \<and>
           hasNext m = (P < \<lceil>real N / real_of_int L\<rceil>) \<and>
           hasPrev m = (1 < P) \<and>
           (\<lceil>real N / real_of_int L\<rceil> < P \<longrightarrow> ts = [] \<and> \<not> hasNext m)"
    using mongo empty paginate_facts [OF lim, of P N] by simp
next
  let ?sel = "filter (selects_memory who rq) store"
  have memory: "getTasks_memory store who rq =
      Inr (Listing (take (nat L) (drop (nat ((P - 1) * L)) ?sel)) (paginate P L M))"
    using getTasks_memory_listing [OF list, of store who] page lim by (simp add: P_def L_def M_def)
  have empty: "take (nat L) (drop (nat ((P - 1) * L)) ?sel) = []"
    if "\<lceil>real M / real_of_int L\<rceil> < P"
    using beyond_last_page [OF lim that] by (simp add: M_def)
  show "\<exists>ts m.
           getTasks_memory store who rq = Inr (Listing ts m) \<and>
           page m = P \<and> limit m = L \<and> totalTasks m = M \<and>
           totalPages m = Some \<lceil>real M / real_of_int L\<rceil> \<and>
           (\<lceil>real M / real_of_int L\<rceil> - 1) * L < int M \<and> int M \<le> \<lceil>real M / real_of_int L\<rceil> * L \<and>
           hasNext m = (P < \<lceil>real M / real_of_int L\<rceil>) \<and>
           hasPrev m = (1 < P) \<and>
           (\<lceil>real M / real_of_int L\<rceil> < P \<longrightarrow> ts = [] \<and> \<not> hasNext m)"
    using memory empty paginate_facts [OF lim, of P M] by simp
qed

theorem list_pagination_metadata_witness:
  "rq_board (plain_request\<lparr>rq_page := Some 3, rq_limit := Some 3\<rparr>) \<noteq> Some ''true'' \<and>
   (\<exists>m. getTasks_mongo example_users example_docs alice
            (plain_request\<lparr>rq_page := Some 3, rq_limit := Some 3\<rparr>) = Inr (Listing [] m) \<and>
        totalTasks m = 4 \<and> totalPages m = Some 2 \<and> \<not> hasNext m \<and> hasPrev m) \<and>
   (\<exists>m. getTasks_memory example_tasks 1
            (plain_request\<lparr>rq_page := Some 3, rq_limit := Some 3\<rparr>) = Inr (Listing [] m) \<and>
        totalTasks m = 4 \<and> totalPages m = Some 2 \<and> \<not> hasNext m \<and> hasPrev m)"
proof -
  let ?rq = "plain_request\<lparr>rq_page := Some 3, rq_limit := Some 3\<rparr>"
  have b: "rq_board ?rq \<noteq> Some ''true''" by (simp add: plain_request_def)
  have p: "1 \<le> or_default 1 (rq_page ?rq)" by simp
  have l: "1 \<le> or_default 15 (rq_limit ?rq)" by simp
  have n: "length (filter (selects alice ?rq) example_docs) = 4"
    by (simp add: example_docs_def listed_doc_def plain_request_def alice_def bob_def)
  have n': "length (filter (selects_memory 1 ?rq) example_tasks) = 4"
    by (simp add: example_tasks_def example_task_def plain_request_def)
  note at_example = list_pagination_metadata
    [where coll = example_docs and us = example_users and uid = alice and store = example_tasks
       and who = 1 and rq = ?rq, OF b p l, unfolded n n']
  show ?thesis
    using at_example b by auto
qed

lemma string_order_priorities:
  "''backlog'' < ''high'' \<and> ''high'' < ''low'' \<and> ''low'' < ''medium''"
  by (simp add: less_char_def)

text \<open>
  Claim C3, as amended. A list request with page \<open>P \<ge> 1\<close> and limit \<open>L \<ge> 1\<close> selects the
  acting user's non-archived tasks that match every provided filter. The database branch
  orders them by the priority string ascending (as strings: backlog, high, low, medium),
  then by position ascending, then by creation time descending; the in-memory branch keeps
  them in the order of insertion. Either returns the window of \<open>L\<close> tasks after the first
  \<open>(P - 1) * L\<close> of its sequence, the database branch with the assignee and the creator of
  each task populated.
\<close>

theorem list_selection_and_order:
  fixes coll :: "'id task list" and us :: "'id user list" and uid :: 'id
    and store :: "js_id task list" and who :: nat and rq :: tasks_request
  defines "P \<equiv> or_default 1 (rq_page rq)" and "L \<equiv> or_default 15 (rq_limit rq)"
  assumes list: "rq_board rq \<noteq> Some ''true''" and page: "1 \<le> P" and lim: "1 \<le> L"
  shows "\<exists>S.
           mset S = mset (filter (selects uid rq) coll) \<and>
           sorted (map (\<lambda>t. (priority t, position t, - createdAt t)) S) \<and>
           getTasks_mongo us coll uid rq =
             Inr (Listing (map (populate_listed us) (take (nat L) (drop (nat ((P - 1) * L)) S)))
                    (paginate P L (length (filter (selects uid rq) coll)))) \<and>
           getTasks_memory store who rq =
             Inr (Listing (take (nat L) (drop (nat ((P - 1) * L))
                                           (filter (selects_memory who rq) store)))
                    (paginate P L (length (filter (selects_memory who rq) store)))) \<and>
           ''backlog'' < ''high'' \<and> ''high'' < ''low'' \<and> ''low'' < ''medium''"
proof (intro exI conjI)
  let ?sel = "filter (selects uid rq) coll"
  let ?S = "sort_priority_position_createdAt ?sel"
  show "getTasks_mongo us coll uid rq =
      Inr (Listing (map (populate_listed us) (take (nat L) (drop (nat ((P - 1) * L)) ?S)))
             (paginate P L (length ?sel)))"
    using getTasks_mongo_listing [OF list, of us coll uid] page lim by (simp add: P_def L_def)
  show "getTasks_memory store who rq =
      Inr (Listing (take (nat L) (drop (nat ((P - 1) * L)) (filter (selects_memory who rq) store)))
             (paginate P L (length (filter (selects_memory who rq) store))))"
    using getTasks_memory_listing [OF list, of store who] page lim by (simp add: P_def L_def)
  show "mset ?S = mset ?sel"
    by (simp add: sort_priority_position_createdAt_def)
  show "sorted (map (\<lambda>t. (priority t, position t, - createdAt t)) ?S)"
    by (simp add: sort_priority_position_createdAt_def)
  show "''backlog'' < ''high''" "''high'' < ''low''" "''low'' < ''medium''"
    using string_order_priorities by simp_all
qed

theorem list_selection_and_order_witness:
  "rq_board plain_request \<noteq> Some ''true'' \<and>
   (\<exists>S. mset S = mset (filter (selects alice plain_request) example_docs) \<and>
       sorted (map (\<lambda>t. (priority t, position t, - createdAt t)) S) \<and>
       getTasks_mongo example_users example_docs alice plain_request =
         Inr (Listing (map (populate_listed example_users) (take 15 S))
                (paginate 1 15 (length (filter (selects alice plain_request) example_docs)))) \<and>
       getTasks_memory example_tasks 1 plain_request =
         Inr (Listing (take 15 (filter (selects_memory 1 plain_request) example_tasks))
                (paginate 1 15 (length (filter (selects_memory 1 plain_request) example_tasks)))))"
proof -
  have b: "rq_board plain_request \<noteq> Some ''true''" by (simp add: plain_request_def)
  have p: "1 \<le> or_default 1 (rq_page plain_request)" by (simp add: plain_request_def)
  have l: "1 \<le> or_default 15 (rq_limit plain_request)" by (simp add: plain_request_def)
  have pl: "or_default 1 (rq_page plain_request) = 1" "or_default 15 (rq_limit plain_request) = 15"
    by (simp_all add: plain_request_def)
  note at_example = list_selection_and_order
    [where coll = example_docs and us = example_users and uid = alice and store = example_tasks
       and who = 1 and rq = plain_request, OF b p l, unfolded pl]
  show ?thesis
    using at_example b by auto
qed

lemma example_tasks_listed:
  "getTasks_memory example_tasks 1 plain_request =
     Inr (Listing [example_task 11 ''low'' ''pending'' 1 0 False 10,
                   example_task 12 ''high'' ''completed'' 1 0 False 20,
                   example_task 13 ''backlog'' ''pending'' 1 0 False 30,
                   example_task 14 ''medium'' ''pending'' 1 0 False 40]
            \<lparr>page = 1, limit = 15, totalPages = Some 1, totalTasks = 4, hasNext = False,
               hasPrev = False\<rparr>)"
  by (simp add: getTasks_memory_def example_tasks_def example_task_def plain_request_def
      tasks_findByAssignee_def js_slice_def paginate_def)

lemma example_docs_listed:
  "getTasks_mongo example_users example_docs alice plain_request =
     Inr (Listing (map (populate_listed example_users)
                    [listed_doc ''64b7f0a1c2d3e4f5a6b7c813'' ''backlog'' ''pending'' alice 0 False 30,
                     listed_doc ''64b7f0a1c2d3e4f5a6b7c812'' ''high'' ''completed'' alice 0 False 20,
                     listed_doc ''64b7f0a1c2d3e4f5a6b7c811'' ''low'' ''pending'' alice 0 False 10,
                     listed_doc ''64b7f0a1c2d3e4f5a6b7c814'' ''medium'' ''pending'' alice 0 False 40])
            \<lparr>page = 1, limit = 15, totalPages = Some 1, totalTasks = 4, hasNext = False,
               hasPrev = False\<rparr>)"
  by (simp add: getTasks_mongo_def example_docs_def listed_doc_def plain_request_def
      find_docs_def matches_def countDocuments_def skip_docs_def limit_docs_def
      sort_priority_position_createdAt_def less_char_def less_eq_char_def paginate_def
      alice_def bob_def)

text \<open>
  Claim C3 as stated fails on both branches: the in-memory branch returns a low task before
  a high one, and the database branch returns backlog first and low before medium.
\<close>

theorem list_not_in_severity_order_counterexample:
  "getTasks_memory example_tasks 1 plain_request =
     Inr (Listing [example_task 11 ''low'' ''pending'' 1 0 False 10,
                   example_task 12 ''high'' ''completed'' 1 0 False 20,
                   example_task 13 ''backlog'' ''pending'' 1 0 False 30,
                   example_task 14 ''medium'' ''pending'' 1 0 False 40]
            \<lparr>page = 1, limit = 15, totalPages = Some 1, totalTasks = 4, hasNext = False,
               hasPrev = False\<rparr>) \<and>
   getTasks_mongo example_users example_docs alice plain_request =
     Inr (Listing (map (populate_listed example_users)
                    [listed_doc ''64b7f0a1c2d3e4f5a6b7c813'' ''backlog'' ''pending'' alice 0 False 30,
                     listed_doc ''64b7f0a1c2d3e4f5a6b7c812'' ''high'' ''completed'' alice 0 False 20,
                     listed_doc ''64b7f0a1c2d3e4f5a6b7c811'' ''low'' ''pending'' alice 0 False 10,
                     listed_doc ''64b7f0a1c2d3e4f5a6b7c814'' ''medium'' ''pending'' alice 0 False 40])
            \<lparr>page = 1, limit = 15, totalPages = Some 1, totalTasks = 4, hasNext = False,
               hasPrev = False\<rparr>)"
  by (rule conjI) (rule example_tasks_listed example_docs_listed)+

section \<open>The board\<close>

lemma getTasksByPriority_first_page:
  "getTasksByPriority us coll a p 1 l =
     Inr (map (populate_listed us) (limit_docs l (sort_position_createdAt
            (find_docs \<lparr>qy_assignee = Some a, qy_priority = Some p, qy_status = None,
                        qy_isArchived = Some False\<rparr> coll))))"
  by (simp add: getTasksByPriority_def skip_docs_def)

lemma lane_count:
  "countDocuments \<lparr>qy_assignee = Some a, qy_priority = Some p, qy_status = None,
                   qy_isArchived = Some False\<rparr> coll
   = length (filter (\<lambda>t. assignee t = a \<and> \<not> isArchived t \<and> priority t = p) coll)"
  unfolding countDocuments_def
  by (rule arg_cong [where f = length], rule filter_cong) (auto simp: matches_def)

lemma lane_docs:
  "find_docs \<lparr>qy_assignee = Some a, qy_priority = Some p, qy_status = None,
              qy_isArchived = Some False\<rparr> coll
   = filter (\<lambda>t. assignee t = a \<and> \<not> isArchived t \<and> priority t = p) coll"
  unfolding find_docs_def by (rule filter_cong) (auto simp: matches_def)

lemma getBoardData_loop_explicit:
  "getBoardData_loop us coll a l ps =
     Inr (map (\<lambda>p. (p, \<lparr>lane_tasks = map (populate_listed us) (limit_docs l (sort_position_createdAt
                                 (filter (\<lambda>t. assignee t = a \<and> \<not> isArchived t \<and> priority t = p) coll))),
                          totalCount = length (filter (\<lambda>t. assignee t = a \<and> \<not> isArchived t \<and> priority t = p) coll),
                          hasMore = (l < int (length (filter (\<lambda>t. assignee t = a \<and> \<not> isArchived t \<and> priority t = p) coll)))\<rparr>))
            ps)"
  by (induction ps) (simp_all add: getTasksByPriority_first_page lane_count lane_docs Let_def)

lemma getTasks_mongo_board:
  assumes "rq_board rq = Some ''true''"
  shows "getTasks_mongo us coll uid rq =
      Inr (Board (map (\<lambda>p. (p, \<lparr>lane_tasks = map (populate_listed us)
                                   (limit_docs (or_default 15 (rq_limit rq)) (sort_position_createdAt
                                      (filter (\<lambda>t. assignee t = uid \<and> \<not> isArchived t \<and> priority t = p) coll))),
                          totalCount = length (filter (\<lambda>t. assignee t = uid \<and> \<not> isArchived t \<and> priority t = p) coll),
                          hasMore = (or_default 15 (rq_limit rq)
                             < int (length (filter (\<lambda>t. assignee t = uid \<and> \<not> isArchived t \<and> priority t = p) coll)))\<rparr>))
            priorities))"
  using assms
  by (simp add: getTasks_mongo_def getBoardData_def getBoardData_loop_explicit Let_def)

lemma getTasks_memory_board:
  assumes "rq_board rq = Some ''true''"
  shows "getTasks_memory store uid rq =
     Inr (Board (map (\<lambda>p. (p, \<lparr>lane_tasks = js_slice (filter (\<lambda>t. selects_memory uid rq t \<and> priority t = p) store) 0
                                                (or_default 15 (rq_limit rq)),
                               totalCount = length (filter (\<lambda>t. selects_memory uid rq t \<and> priority t = p) store),
                               hasMore = (or_default 15 (rq_limit rq)
                                  < int (length (filter (\<lambda>t. selects_memory uid rq t \<and> priority t = p) store)))\<rparr>))
                  priorities))"
  using assms
  by (simp add: getTasks_memory_def Let_def memory_selection del: filter_filter) (simp add: conj_ac)

lemma getTasks_memory_board_plain:
  assumes "rq_board rq = Some ''true''"
    and "provided (rq_priority rq) = None" and "provided (rq_status rq) = None"
  shows "getTasks_memory store uid rq =
     Inr (Board (map (\<lambda>p. (p, \<lparr>lane_tasks = js_slice (filter (\<lambda>t. loose_eq (assignee t) (Num uid) \<and> \<not> isArchived t \<and> priority t = p) store) 0
                                                (or_default 15 (rq_limit rq)),
                               totalCount = length (filter (\<lambda>t. loose_eq (assignee t) (Num uid) \<and> \<not> isArchived t \<and> priority t = p) store),
                               hasMore = (or_default 15 (rq_limit rq)
                                  < int (length (filter (\<lambda>t. loose_eq (assignee t) (Num uid) \<and> \<not> isArchived t \<and> priority t = p) store)))\<rparr>))
                  priorities))"
  using getTasks_memory_board [OF assms(1), of store uid] assms(2,3) by simp

lemma length_limit_docs_le: "length (limit_docs l (sort_position_createdAt xs)) \<le> length xs"
  by (simp add: limit_docs_def sort_position_createdAt_def)

lemma length_take_drop_le: "length (take n (drop k xs)) \<le> length xs"
  by simp

lemma length_js_slice_le: "length (js_slice xs s e) \<le> length xs"
  unfolding js_slice_def Let_def by (rule length_take_drop_le)

text \<open>
  Claim C2. A board request, which names the board and a limit \<open>L\<close>, returns exactly the
  four lanes high, medium, low and backlog, in this order and none omitted. Each lane has
  \<open>totalCount\<close> equal to the number of the acting user's non-archived tasks of that priority,
  \<open>hasMore = (totalCount > L)\<close>, and no more tasks than \<open>totalCount\<close>; a user without tasks
  gets four empty lanes with \<open>totalCount\<close> 0. The database branch does so whatever else the
  request carries, the in-memory branch when the request carries no priority or status
  filter.
\<close>

theorem board_lanes:
  fixes coll :: "'id task list" and us :: "'id user list" and uid :: 'id
    and store :: "js_id task list" and who :: nat and rq :: tasks_request
  defines "L \<equiv> or_default 15 (rq_limit rq)"
    and "n \<equiv> \<lambda>p. length (filter (\<lambda>t. assignee t = uid \<and> \<not> isArchived t \<and> priority t = p) coll)"
    and "n' \<equiv> \<lambda>p. length (filter (\<lambda>t. loose_eq (assignee t) (Num who) \<and> \<not> isArchived t \<and> priority t = p) store)"
  assumes board: "rq_board rq = Some ''true''"
  shows "(\<exists>b. getTasks_mongo us coll uid rq = Inr (Board b) \<and>
            map (\<lambda>(p, ln). (p, totalCount ln, hasMore ln, length (lane_tasks ln) \<le> totalCount ln)) b =
              map (\<lambda>p. (p, n p, L < int (n p), True)) [''high'', ''medium'', ''low'', ''backlog''] \<and>
            (n = (\<lambda>p. 0) \<longrightarrow>
               b = map (\<lambda>p. (p, \<lparr>lane_tasks = [], totalCount = 0, hasMore = (L < 0)\<rparr>))
                     [''high'', ''medium'', ''low'', ''backlog'']))
       \<and> (provided (rq_priority rq) = None \<and> provided (rq_status rq) = None \<longrightarrow>
           (\<exists>b'. getTasks_memory store who rq = Inr (Board b') \<and>
              map (\<lambda>(p, ln). (p, totalCount ln, hasMore ln, length (lane_tasks ln) \<le> totalCount ln)) b' =
                map (\<lambda>p. (p, n' p, L < int (n' p), True)) [''high'', ''medium'', ''low'', ''backlog''] \<and>
              (n' = (\<lambda>p. 0) \<longrightarrow>
                 b' = map (\<lambda>p. (p, \<lparr>lane_tasks = [], totalCount = 0, hasMore = (L < 0)\<rparr>))
                        [''high'', ''medium'', ''low'', ''backlog''])))"
proof (intro conjI impI)
  let ?lane = "\<lambda>p. filter (\<lambda>t. assignee t = uid \<and> \<not> isArchived t \<and> priority t = p) coll"
  let ?b = "map (\<lambda>p. (p, \<lparr>lane_tasks = map (populate_listed us) (limit_docs L (sort_position_createdAt (?lane p))),
                          totalCount = length (?lane p),
                          hasMore = (L < int (length (?lane p)))\<rparr>)) priorities"
  have run: "getTasks_mongo us coll uid rq = Inr (Board ?b)"
    using getTasks_mongo_board [OF board, of us coll uid] by (simp add: L_def)
  have lanes: "map (\<lambda>(p, ln). (p, totalCount ln, hasMore ln, length (lane_tasks ln) \<le> totalCount ln)) ?b =
              map (\<lambda>p. (p, n p, L < int (n p), True)) [''high'', ''medium'', ''low'', ''backlog'']"
    by (simp add: priorities_def length_limit_docs_le n_def)
  have none: "?b = map (\<lambda>p. (p, \<lparr>lane_tasks = [], totalCount = 0, hasMore = (L < 0)\<rparr>))
                     [''high'', ''medium'', ''low'', ''backlog'']" if "n = (\<lambda>p. 0)"
  proof -
    from that have "\<And>p. length (?lane p) = 0" unfolding n_def by (rule fun_cong)
    then have "\<And>p. ?lane p = []" by (simp only: length_0_conv)
    then show ?thesis
      by (simp add: priorities_def limit_docs_def sort_position_createdAt_def)
  qed
  show "\<exists>b. getTasks_mongo us coll uid rq = Inr (Board b) \<and>
            map (\<lambda>(p, ln). (p, totalCount ln, hasMore ln, length (lane_tasks ln) \<le> totalCount ln)) b =
              map (\<lambda>p. (p, n p, L < int (n p), True)) [''high'', ''medium'', ''low'', ''backlog''] \<and>
            (n = (\<lambda>p. 0) \<longrightarrow>
               b = map (\<lambda>p. (p, \<lparr>lane_tasks = [], totalCount = 0, hasMore = (L < 0)\<rparr>))
                     [''high'', ''medium'', ''low'', ''backlog''])"
  proof (intro exI conjI impI)
    show "getTasks_mongo us coll uid rq = Inr (Board ?b)" by (rule run)
    show "map (\<lambda>(p, ln). (p, totalCount ln, hasMore ln, length (lane_tasks ln) \<le> totalCount ln)) ?b =
              map (\<lambda>p. (p, n p, L < int (n p), True)) [''high'', ''medium'', ''low'', ''backlog'']"
      by (rule lanes)
    assume "n = (\<lambda>p. 0)"
    then show "?b = map (\<lambda>p. (p, \<lparr>lane_tasks = [], totalCount = 0, hasMore = (L < 0)\<rparr>))
                     [''high'', ''medium'', ''low'', ''backlog'']" by (rule none)
  qed
next
  assume plain: "provided (rq_priority rq) = None \<and> provided (rq_status rq) = None"
  let ?lane = "\<lambda>p. filter (\<lambda>t. loose_eq (assignee t) (Num who) \<and> \<not> isArchived t \<and> priority t = p) store"
  let ?b = "map (\<lambda>p. (p, \<lparr>lane_tasks = js_slice (?lane p) 0 L,
                          totalCount = length (?lane p),
                          hasMore = (L < int (length (?lane p)))\<rparr>)) priorities"
  have run: "getTasks_memory store who rq = Inr (Board ?b)"
    using getTasks_memory_board_plain [OF board, of store who] plain by (simp add: L_def)
  have lanes: "map (\<lambda>(p, ln). (p, totalCount ln, hasMore ln, length (lane_tasks ln) \<le> totalCount ln)) ?b =
              map (\<lambda>p. (p, n' p, L < int (n' p), True)) [''high'', ''medium'', ''low'', ''backlog'']"
    by (simp add: priorities_def length_js_slice_le n'_def)
  have none: "?b = map (\<lambda>p. (p, \<lparr>lane_tasks = [], totalCount = 0, hasMore = (L < 0)\<rparr>))
                     [''high'', ''medium'', ''low'', ''backlog'']" if "n' = (\<lambda>p. 0)"
  proof -
    from that have "\<And>p. length (?lane p) = 0" unfolding n'_def by (rule fun_cong)
    then have "\<And>p. ?lane p = []" by (simp only: length_0_conv)
    then show ?thesis
      by (simp add: priorities_def js_slice_def)
  qed
  show "\<exists>b'. getTasks_memory store who rq = Inr (Board b') \<and>
              map (\<lambda>(p, ln). (p, totalCount ln, hasMore ln, length (lane_tasks ln) \<le> totalCount ln)) b' =
                map (\<lambda>p. (p, n' p, L < int (n' p), True)) [''high'', ''medium'', ''low'', ''backlog''] \<and>
              (n' = (\<lambda>p. 0) \<longrightarrow>
                 b' = map (\<lambda>p. (p, \<lparr>lane_tasks = [], totalCount = 0, hasMore = (L < 0)\<rparr>))
                        [''high'', ''medium'', ''low'', ''backlog''])"
  proof (intro exI conjI impI)
    show "getTasks_memory store who rq = Inr (Board ?b)" by (rule run)
    show "map (\<lambda>(p, ln). (p, totalCount ln, hasMore ln, length (lane_tasks ln) \<le> totalCount ln)) ?b =
              map (\<lambda>p. (p, n' p, L < int (n' p), True)) [''high'', ''medium'', ''low'', ''backlog'']"
      by (rule lanes)
    assume "n' = (\<lambda>p. 0)"
    then show "?b = map (\<lambda>p. (p, \<lparr>lane_tasks = [], totalCount = 0, hasMore = (L < 0)\<rparr>))
                     [''high'', ''medium'', ''low'', ''backlog'']" by (rule none)
  qed
qed

theorem board_lanes_witness:
  "rq_board (plain_request\<lparr>rq_board := Some ''true''\<rparr>) = Some ''true'' \<and>
   provided (rq_priority (plain_request\<lparr>rq_board := Some ''true''\<rparr>)) = None \<and>
   provided (rq_status (plain_request\<lparr>rq_board := Some ''true''\<rparr>)) = None \<and>
   (\<exists>b. getTasks_mongo example_users example_docs alice (plain_request\<lparr>rq_board := Some ''true''\<rparr>)
           = Inr (Board b) \<and>
      map (\<lambda>(p, ln). (p, totalCount ln, hasMore ln, length (lane_tasks ln) \<le> totalCount ln)) b =
        [(''high'', 1, False, True), (''medium'', 1, False, True), (''low'', 1, False, True),
         (''backlog'', 1, False, True)]) \<and>
   (\<exists>b'. getTasks_memory example_tasks 1 (plain_request\<lparr>rq_board := Some ''true''\<rparr>) = Inr (Board b') \<and>
      map (\<lambda>(p, ln). (p, totalCount ln, hasMore ln, length (lane_tasks ln) \<le> totalCount ln)) b' =
        [(''high'', 1, False, True), (''medium'', 1, False, True), (''low'', 1, False, True),
         (''backlog'', 1, False, True)]) \<and>
   getTasks_mongo example_users [] alice (plain_request\<lparr>rq_board := Some ''true''\<rparr>) =
     Inr (Board (map (\<lambda>p. (p, \<lparr>lane_tasks = [], totalCount = 0, hasMore = False\<rparr>))
                   [''high'', ''medium'', ''low'', ''backlog''])) \<and>
   getTasks_memory [] 1 (plain_request\<lparr>rq_board := Some ''true''\<rparr>) =
     Inr (Board (map (\<lambda>p. (p, \<lparr>lane_tasks = [], totalCount = 0, hasMore = False\<rparr>))
                   [''high'', ''medium'', ''low'', ''backlog'']))"
proof -
  let ?rq = "plain_request\<lparr>rq_board := Some ''true''\<rparr>"
  let ?shape = "\<lambda>(p, ln). (p, totalCount ln, hasMore ln, length (lane_tasks ln) \<le> totalCount ln)"
  have b: "rq_board ?rq = Some ''true''" by simp
  have f: "provided (rq_priority ?rq) = None" "provided (rq_status ?rq) = None"
    by (simp_all add: plain_request_def)
  have l: "or_default 15 (rq_limit ?rq) = 15" by (simp add: plain_request_def)
  have n: "(\<lambda>p. length (filter (\<lambda>t. assignee t = alice \<and> \<not> isArchived t \<and> priority t = p) example_docs))
             ''high'' = 1"
          "(\<lambda>p. length (filter (\<lambda>t. assignee t = alice \<and> \<not> isArchived t \<and> priority t = p) example_docs))
             ''medium'' = 1"
          "(\<lambda>p. length (filter (\<lambda>t. assignee t = alice \<and> \<not> isArchived t \<and> priority t = p) example_docs))
             ''low'' = 1"
          "(\<lambda>p. length (filter (\<lambda>t. assignee t = alice \<and> \<not> isArchived t \<and> priority t = p) example_docs))
             ''backlog'' = 1"
    by (simp_all add: example_docs_def listed_doc_def alice_def bob_def)
  have n': "(\<lambda>p. length (filter (\<lambda>t. loose_eq (assignee t) (Num 1) \<and> \<not> isArchived t \<and> priority t = p) example_tasks))
             ''high'' = 1"
          "(\<lambda>p. length (filter (\<lambda>t. loose_eq (assignee t) (Num 1) \<and> \<not> isArchived t \<and> priority t = p) example_tasks))
             ''medium'' = 1"
          "(\<lambda>p. length (filter (\<lambda>t. loose_eq (assignee t) (Num 1) \<and> \<not> isArchived t \<and> priority t = p) example_tasks))
             ''low'' = 1"
          "(\<lambda>p. length (filter (\<lambda>t. loose_eq (assignee t) (Num 1) \<and> \<not> isArchived t \<and> priority t = p) example_tasks))
             ''backlog'' = 1"
    by (simp_all add: example_tasks_def example_task_def)
  note at_example = board_lanes
    [where coll = example_docs and us = example_users and uid = alice and store = example_tasks
       and who = 1 and rq = ?rq, OF b]
  from at_example obtain b1 where b1:
    "getTasks_mongo example_users example_docs alice ?rq = Inr (Board b1)"
    "map ?shape b1 =
       map (\<lambda>p. (p, length (filter (\<lambda>t. assignee t = alice \<and> \<not> isArchived t \<and> priority t = p) example_docs),
                  or_default 15 (rq_limit ?rq)
                    < int (length (filter (\<lambda>t. assignee t = alice \<and> \<not> isArchived t \<and> priority t = p) example_docs)),
                  True))
         [''high'', ''medium'', ''low'', ''backlog'']"
    by blast
  from at_example f obtain b2 where b2:
    "getTasks_memory example_tasks 1 ?rq = Inr (Board b2)"
    "map ?shape b2 =
       map (\<lambda>p. (p, length (filter (\<lambda>t. loose_eq (assignee t) (Num 1) \<and> \<not> isArchived t \<and> priority t = p) example_tasks),
                  or_default 15 (rq_limit ?rq)
                    < int (length (filter (\<lambda>t. loose_eq (assignee t) (Num 1) \<and> \<not> isArchived t \<and> priority t = p) example_tasks)),
                  True))
         [''high'', ''medium'', ''low'', ''backlog'']"
    by blast
  have s1: "map ?shape b1 =
        [(''high'', 1, False, True), (''medium'', 1, False, True), (''low'', 1, False, True),
         (''backlog'', 1, False, True)]"
    using b1(2) n l by simp
  have s2: "map ?shape b2 =
        [(''high'', 1, False, True), (''medium'', 1, False, True), (''low'', 1, False, True),
         (''backlog'', 1, False, True)]"
    using b2(2) n' l by simp
  have e1: "\<exists>b. getTasks_mongo example_users example_docs alice ?rq = Inr (Board b) \<and>
      map ?shape b =
        [(''high'', 1, False, True), (''medium'', 1, False, True), (''low'', 1, False, True),
         (''backlog'', 1, False, True)]"
    by (intro exI conjI) (rule b1(1) s1)+
  have e2: "\<exists>b'. getTasks_memory example_tasks 1 ?rq = Inr (Board b') \<and>
      map ?shape b' =
        [(''high'', 1, False, True), (''medium'', 1, False, True), (''low'', 1, False, True),
         (''backlog'', 1, False, True)]"
    by (intro exI conjI) (rule b2(1) s2)+
  note at_empty = board_lanes
    [where coll = "[]" and us = example_users and uid = alice and store = "[]"
       and who = 1 and rq = ?rq, OF b]
  have z1: "getTasks_mongo example_users [] alice ?rq =
     Inr (Board (map (\<lambda>p. (p, \<lparr>lane_tasks = [], totalCount = 0, hasMore = False\<rparr>))
                   [''high'', ''medium'', ''low'', ''backlog'']))"
    using at_empty l by auto
  have z2: "getTasks_memory [] 1 ?rq =
     Inr (Board (map (\<lambda>p. (p, \<lparr>lane_tasks = [], totalCount = 0, hasMore = False\<rparr>))
                   [''high'', ''medium'', ''low'', ''backlog'']))"
    using at_empty f l by auto
  show ?thesis
    by (intro conjI) (rule b f e1 e2 z1 z2)+
qed

text \<open>
  Beyond the claim: when a board request also carries a status filter, the in-memory branch
  filters before it groups, where the database branch ignores the filter. User 1 has one
  non-archived high task, completed; under \<^verbatim>\<open>status=pending\<close> the high lane of the
  in-memory branch reports none.
\<close>

lemma board_in_memory_under_status_filter:
  "getTasks_memory example_tasks 1 (plain_request\<lparr>rq_status := Some ''pending'', rq_board := Some ''true''\<rparr>) =
     Inr (Board [(''high'', \<lparr>lane_tasks = [], totalCount = 0, hasMore = False\<rparr>),
                 (''medium'', \<lparr>lane_tasks = [example_task 14 ''medium'' ''pending'' 1 0 False 40], totalCount = 1, hasMore = False\<rparr>),
                 (''low'', \<lparr>lane_tasks = [example_task 11 ''low'' ''pending'' 1 0 False 10], totalCount = 1, hasMore = False\<rparr>),
                 (''backlog'', \<lparr>lane_tasks = [example_task 13 ''backlog'' ''pending'' 1 0 False 30], totalCount = 1, hasMore = False\<rparr>)])"
  by (simp add: getTasks_memory_def example_tasks_def example_task_def priorities_def
      plain_request_def tasks_findByAssignee_def js_slice_def)

section \<open>The two branches of the listing handler\<close>









section \<open>Creating a task\<close>









lemma example_number_of_string:
  "js_number ''000000000000000000000002'' = Some 2"
  "js_number ''0000000000000000000002e0'' = Some 2"
  "isMongoId ''000000000000000000000002''"
  "isMongoId ''0000000000000000000002e0''"
  by (simp_all add: js_number_def decimal_literal_def literal_value_def digit_value_def
      isDigit_def isMongoId_def isHexadecimal_def isHexDigit_def)




text \<open>
  On the in-memory branch the count is of the tasks whose stored assignee is \<^verbatim>\<open>==\<close> to the
  string of the request, and two strings are \<^verbatim>\<open>==\<close> only when they are the same string.
  Two requests that name user 2 by two spellings: the first new task is not counted for
  the second, which gets the same position, 1, in a lane that holds two tasks.
\<close>

lemma create_position_two_spellings:
  "post_task_memory 6 7
     (snd (post_task_memory 4 5 example_store 1
             (example_body\<lparr>b_assignee := Some ''0000000000000000000002e0''\<rparr>)))
     1 (example_body\<lparr>b_assignee := Some ''000000000000000000000002''\<rparr>) =
     (Inr \<lparr>tv_task = \<lparr>task_id = Num 4, title = ''write report'', description = None, dueDate = None,
                      priority = ''low'', status = ''pending'',
                      assignee = Str ''000000000000000000000002'', createdBy = Num 1, position = 1,
                      tags = [], isArchived = False, createdAt = 7, updatedAt = 7\<rparr>,
           tv_assignee = Some \<lparr>ref_id = Num 2, ref_name = ''bob'', ref_email = ''bob@example.com'',
                               ref_avatarUrl = None\<rparr>,
           tv_createdBy = Some \<lparr>ref_id = Num 1, ref_name = ''alice'', ref_email = ''alice@example.com'',
                                ref_avatarUrl = None\<rparr>\<rparr>,
      example_store\<lparr>tasks := tasks example_store @
                       [\<lparr>task_id = Num 3, title = ''write report'', description = None, dueDate = None,
                         priority = ''low'', status = ''pending'',
                         assignee = Str ''0000000000000000000002e0'', createdBy = Num 1, position = 1,
                         tags = [], isArchived = False, createdAt = 5, updatedAt = 5\<rparr>,
                        \<lparr>task_id = Num 4, title = ''write report'', description = None, dueDate = None,
                         priority = ''low'', status = ''pending'',
                         assignee = Str ''000000000000000000000002'', createdBy = Num 1, position = 1,
                         tags = [], isArchived = False, createdAt = 7, updatedAt = 7\<rparr>],
                     taskIdCounter := 5\<rparr>)"
proof -
  have v: "validateTask now (example_body\<lparr>b_assignee := Some ''000000000000000000000002''\<rparr>) = []"
    "validateTask now (example_body\<lparr>b_assignee := Some ''0000000000000000000002e0''\<rparr>) = []" for now
    by (simp_all add: validateTask_def validate_title_def validate_description_def validate_dueDate_def
      validate_priority_def validate_status_def validate_assignee_def validate_tags_def
      example_body_def priorities_def trim_def is_space_def example_number_of_string)
  show ?thesis
    unfolding post_task_memory_def v
    by (simp add: createTask_memory_def validated_body_def example_body_def example_store_def
        example_task_def example_user_def users_findById_def tasks_findByAssignee_def
        tasks_create_def select_user_def example_number_of_string trim_def is_space_def Let_def)
qed

text \<open>
  A due date that \<^verbatim>\<open>new Date\<close> reads as a time at or before the clock fails the chain of
  \<^verbatim>\<open>validateTask\<close>: the create request, on either branch, and the update request are
  answered with the validation failure, whose errors name the field dueDate, and the store
  is returned unchanged.
\<close>

lemma readable_past_due_date_rejected:
  assumes due: "b_dueDate body = Some (Due isoOk (Some d))" and past: "d \<le> now"
  shows "post_task_mongo now now' fresh db uid body = (Inl (ValidationFailed (validateTask now body)), db)
       \<and> post_task_memory now now' st who body = (Inl (ValidationFailed (validateTask now body)), st)
       \<and> put_task now now' db uid tid body = (Inl (ValidationFailed (validateTask now body)), db)
       \<and> (''dueDate'', ''Due date must be in the future'') \<in> set (validateTask now body)"
proof -
  from due past have e: "(''dueDate'', ''Due date must be in the future'') \<in> set (validateTask now body)"
    by (simp add: validateTask_def validate_dueDate_def)
  then have "validateTask now body \<noteq> []" by auto
  with e show ?thesis
    by (simp add: post_task_mongo_def post_task_memory_def put_task_def)
qed


section \<open>Reading, updating and deleting a task\<close>

lemma findById_Some: "findById coll i = Some t \<Longrightarrow> t \<in> set coll \<and> task_id t = i"
  by (auto simp: findById_def find_Some_iff)

text \<open>
  Claim C7. When a user who is neither the assignee nor the creator of a stored task asks to
  delete it, the request fails with the authorization failure, the store is unchanged and
  the task is still in it.
\<close>

theorem delete_by_stranger_denied:
  assumes "findById (db_tasks db) tid = Some t" and "uid \<noteq> assignee t" and "uid \<noteq> createdBy t"
  shows "deleteTask db uid tid =
           (Inl (AccessDenied ''Access denied. You can only delete tasks assigned to you or created by you.''), db)
         \<and> findById (db_tasks (snd (deleteTask db uid tid))) tid = Some t
         \<and> t \<in> set (db_tasks (snd (deleteTask db uid tid)))"
proof -
  from assms(2,3) have "\<not> truthy (req_checkOwnership uid (Some t))"
    by (simp add: req_checkOwnership_truthy)
  with assms(1) have "deleteTask db uid tid =
      (Inl (AccessDenied ''Access denied. You can only delete tasks assigned to you or created by you.''), db)"
    by (simp add: deleteTask_def)
  with assms(1) findById_Some [OF assms(1)] show ?thesis by simp
qed

theorem delete_by_stranger_denied_witness:
  "findById (db_tasks example_db) (ObjectId ''64b7f0a1c2d3e4f5a6b7c8a1'')
     = Some (example_doc ''64b7f0a1c2d3e4f5a6b7c8a1'' ''low'' bob 1 False) \<and>
   alice \<noteq> bob \<and>
   deleteTask example_db alice (ObjectId ''64b7f0a1c2d3e4f5a6b7c8a1'') =
     (Inl (AccessDenied ''Access denied. You can only delete tasks assigned to you or created by you.''), example_db) \<and>
   deleteTask example_db bob (ObjectId ''64b7f0a1c2d3e4f5a6b7c8a1'') =
     (Inr ''Task deleted successfully'',
      example_db\<lparr>db_tasks := [example_doc ''64b7f0a1c2d3e4f5a6b7c8a2'' ''high'' bob 0 True]\<rparr>)"
proof -
  have f: "findById (db_tasks example_db) (ObjectId ''64b7f0a1c2d3e4f5a6b7c8a1'')
     = Some (example_doc ''64b7f0a1c2d3e4f5a6b7c8a1'' ''low'' bob 1 False)"
    by (simp add: findById_def example_db_def example_doc_def)
  have a: "alice \<noteq> assignee (example_doc ''64b7f0a1c2d3e4f5a6b7c8a1'' ''low'' bob 1 False)"
    and c: "alice \<noteq> createdBy (example_doc ''64b7f0a1c2d3e4f5a6b7c8a1'' ''low'' bob 1 False)"
    by (simp_all add: example_doc_def alice_def bob_def)
  have ok: "deleteTask example_db bob (ObjectId ''64b7f0a1c2d3e4f5a6b7c8a1'') =
     (Inr ''Task deleted successfully'',
      example_db\<lparr>db_tasks := [example_doc ''64b7f0a1c2d3e4f5a6b7c8a2'' ''high'' bob 0 True]\<rparr>)"
    by (simp add: deleteTask_def f req_checkOwnership_truthy findByIdAndDelete_def)
       (simp add: example_db_def example_doc_def)
  from delete_by_stranger_denied [OF f a c] f ok show ?thesis
    by (simp add: alice_def bob_def)
qed

lemma findById_update_first:
  assumes "findById coll i = Some t" and "task_id (f t) = i"
  shows "findById (update_first (\<lambda>d. task_id d = i) f coll) i = Some (f t)"
  using assms by (induction coll) (auto simp: findById_def split: if_splits)

lemma others_update_first:
  "filter (\<lambda>d. task_id d \<noteq> i) (update_first (\<lambda>d. task_id d = i) f coll)
     = filter (\<lambda>d. task_id d \<noteq> i) coll" if "\<And>d. task_id (f d) = task_id d"
  using that by (induction coll) auto

lemma task_id_apply_patch: "task_id (apply_patch now p t) = task_id t"
  by (simp add: apply_patch_def)

text \<open>
  Claim C9. A successful status update of a stored task sets its status to the requested
  value and leaves its title, description, due date, priority, assignee, creator, position,
  tags and archived flag (and its identifier and creation time) as they were; the users and
  every other task are unchanged.
\<close>

theorem status_update_changes_status_only:
  assumes found: "findById (db_tasks db) tid = Some t"
    and ok: "patch_task_status now db uid tid st = (Inr r, db')"
  shows "\<exists>t' s. st = Some s \<and> findById (db_tasks db') tid = Some t' \<and>
           r = Some (populate (db_users db) t') \<and> status t' = s \<and>
           title t' = title t \<and> description t' = description t \<and> dueDate t' = dueDate t \<and>
           priority t' = priority t \<and> assignee t' = assignee t \<and> createdBy t' = createdBy t \<and>
           position t' = position t \<and> tags t' = tags t \<and> isArchived t' = isArchived t \<and>
           task_id t' = task_id t \<and> createdAt t' = createdAt t \<and>
           db_users db' = db_users db \<and>
           filter (\<lambda>d. task_id d \<noteq> tid) (db_tasks db') = filter (\<lambda>d. task_id d \<noteq> tid) (db_tasks db)"
proof -
  let ?p = "\<lparr>p_title = None, p_description = None, p_dueDate = None, p_priority = None,
             p_status = st, p_assignee = None, p_tags = None, p_position = None\<rparr> :: objectId task_patch"
  let ?t' = "apply_patch now ?p t"
  from ok have valid: "validateTaskStatus st = []"
    and handler: "updateTaskStatus now db uid tid st = (Inr r, db')"
    by (auto simp: patch_task_status_def split: if_splits)
  from valid obtain s where st: "st = Some s"
    by (cases st) (auto simp: validateTaskStatus_def status_values_def split: if_splits)
  from findById_Some [OF found] have tid: "task_id t = tid" by simp
  from handler found have
    r: "r = Some (populate (db_users db) ?t')"
    and db': "db' = db\<lparr>db_tasks := update_first (\<lambda>d. task_id d = tid) (apply_patch now ?p) (db_tasks db)\<rparr>"
    by (auto simp: updateTaskStatus_def findByIdAndUpdate_def Let_def split: if_splits)
  have "findById (db_tasks db') tid = Some ?t'"
    using findById_update_first [OF found, of "apply_patch now ?p"] tid
    by (simp add: db' task_id_apply_patch)
  moreover have "filter (\<lambda>d. task_id d \<noteq> tid) (db_tasks db') = filter (\<lambda>d. task_id d \<noteq> tid) (db_tasks db)"
    by (simp add: db' others_update_first task_id_apply_patch)
  moreover have "status ?t' = s" by (simp add: apply_patch_def st)
  ultimately show ?thesis
    using st r db' by (intro exI [of _ ?t'] exI [of _ s]) (simp add: apply_patch_def)
qed

theorem status_update_changes_status_only_witness:
  "findById (db_tasks example_db) (ObjectId ''64b7f0a1c2d3e4f5a6b7c8a1'')
     = Some (example_doc ''64b7f0a1c2d3e4f5a6b7c8a1'' ''low'' bob 1 False) \<and>
   fst (patch_task_status 99 example_db bob (ObjectId ''64b7f0a1c2d3e4f5a6b7c8a1'') (Some ''completed''))
     = Inr (Some (populate (db_users example_db)
         ((example_doc ''64b7f0a1c2d3e4f5a6b7c8a1'' ''low'' bob 1 False)\<lparr>status := ''completed'', updatedAt := 99\<rparr>))) \<and>
   findById (db_tasks (snd (patch_task_status 99 example_db bob (ObjectId ''64b7f0a1c2d3e4f5a6b7c8a1'') (Some ''completed''))))
        (ObjectId ''64b7f0a1c2d3e4f5a6b7c8a1'')
     = Some ((example_doc ''64b7f0a1c2d3e4f5a6b7c8a1'' ''low'' bob 1 False)\<lparr>status := ''completed'', updatedAt := 99\<rparr>)"
proof -
  let ?tid = "ObjectId ''64b7f0a1c2d3e4f5a6b7c8a1''"
  let ?t = "example_doc ''64b7f0a1c2d3e4f5a6b7c8a1'' ''low'' bob 1 False"
  have f: "findById (db_tasks example_db) ?tid = Some ?t"
    by (simp add: findById_def example_db_def example_doc_def)
  have run: "fst (patch_task_status 99 example_db bob ?tid (Some ''completed''))
      = Inr (Some (populate (db_users example_db) (?t\<lparr>status := ''completed'', updatedAt := 99\<rparr>)))"
    by (simp add: patch_task_status_def validateTaskStatus_def status_values_def updateTaskStatus_def
        f req_checkOwnership_truthy findByIdAndUpdate_def Let_def update_errors_def)
       (simp add: example_doc_def apply_patch_def)
  have ok: "patch_task_status 99 example_db bob ?tid (Some ''completed'')
      = (Inr (Some (populate (db_users example_db) (?t\<lparr>status := ''completed'', updatedAt := 99\<rparr>))),
         snd (patch_task_status 99 example_db bob ?tid (Some ''completed'')))"
    using run by (simp add: prod_eq_iff)
  from status_update_changes_status_only [OF f ok] obtain t' where
    t': "findById (db_tasks (snd (patch_task_status 99 example_db bob ?tid (Some ''completed'')))) ?tid = Some t'"
    "Some (populate (db_users example_db) (?t\<lparr>status := ''completed'', updatedAt := 99\<rparr>))
        = Some (populate (db_users example_db) t')"
    by blast
  from t'(2) have "t' = ?t\<lparr>status := ''completed'', updatedAt := 99\<rparr>"
    by (simp add: populate_def populate_select_def)
  with t'(1) f run show ?thesis by simp
qed

section \<open>Reading one task\<close>

lemma findById_stored:
  assumes "t \<in> set coll" and "distinct (map task_id coll)"
  shows "findById coll (task_id t) = Some t"
  using assms by (induction coll) (auto simp: findById_def)

lemma tasks_findById_stored:
  assumes "t \<in> set ts" and "distinct (map task_id ts)" and "task_id t = Num n"
    and "\<forall>d \<in> set ts. \<exists>k. task_id d = Num k"
  shows "tasks_findById ts (Num n) = Some t"
  using assms
proof (induction ts)
  case Nil
  then show ?case by simp
next
  case (Cons d ts)
  from Cons.prems(4) obtain k where k: "task_id d = Num k" by auto
  show ?case
  proof (cases "d = t")
    case True
    with Cons.prems(3) show ?thesis by (simp add: tasks_findById_def)
  next
    case False
    with Cons.prems(1) have t: "t \<in> set ts" by simp
    from Cons.prems(2) have d: "task_id d \<notin> task_id ` set ts" "distinct (map task_id ts)"
      by simp_all
    from d(1) t have "task_id d \<noteq> task_id t" by (metis imageI)
    with Cons.prems(3) k have ne: "k \<noteq> n" by simp
    from Cons.prems(4) have "\<forall>d \<in> set ts. \<exists>k. task_id d = Num k" by simp
    from Cons.IH [OF t d(2) Cons.prems(3) this] have "tasks_findById ts (Num n) = Some t" .
    with k ne show ?thesis by (simp add: tasks_findById_def)
  qed
qed

text \<open>
  On the database branch the access test of \<^verbatim>\<open>getTask\<close> is false for every user, so a task
  that is found, archived or not, is answered with the authorization failure, and the
  handler returns no task at all.
\<close>

lemma canAccess_object_identity: "\<not> truthy (canAccess object_identity v uid)"
  by (simp add: canAccess_def object_identity_def Let_def split: option.splits)

lemma getTask_mongo_found:
  assumes "findById (db_tasks db) tid = Some t"
  shows "getTask_mongo db uid tid =
           Inl (AccessDenied ''Access denied. You can only view tasks assigned to you or created by you.'')"
  using assms by (simp add: getTask_mongo_def getTask_checked_def canAccess_object_identity)

lemma getTask_mongo_returns_no_task: "getTask_mongo db uid tid \<noteq> Inr v"
  by (cases "findById (db_tasks db) tid")
     (simp_all add: getTask_mongo_def getTask_checked_def canAccess_object_identity)

text \<open>
  \<^verbatim>\<open>req.checkOwnership\<close> itself is true exactly for the assignee and the creator of the
  task, and false, without an exception, for an absent task.
\<close>

lemma req_checkOwnership_decides:
  "req_checkOwnership uid (Some t) = JBool (uid = assignee t \<or> uid = createdBy t)
   \<and> req_checkOwnership uid None = JBool False"
  by (simp add: req_checkOwnership_Some req_checkOwnership_None)

text \<open>
  Claim C1 fails of the code, in the access test that \<^verbatim>\<open>getTask\<close> makes for itself. Bob is
  the assignee and the creator of the first task of the example database, and
  \<^verbatim>\<open>req.checkOwnership\<close> is true of him; yet on the database branch \<^verbatim>\<open>getTask\<close> answers
  his request with the authorization failure. On the in-memory branch, where the
  identifiers are numbers, the same request returns the task.
\<close>

theorem getTask_denies_owner_on_database:
  "findById (db_tasks example_db) (ObjectId ''64b7f0a1c2d3e4f5a6b7c8a1'')
     = Some (example_doc ''64b7f0a1c2d3e4f5a6b7c8a1'' ''low'' bob 1 False) \<and>
   assignee (example_doc ''64b7f0a1c2d3e4f5a6b7c8a1'' ''low'' bob 1 False) = bob \<and>
   createdBy (example_doc ''64b7f0a1c2d3e4f5a6b7c8a1'' ''low'' bob 1 False) = bob \<and>
   req_checkOwnership bob (Some (example_doc ''64b7f0a1c2d3e4f5a6b7c8a1'' ''low'' bob 1 False)) = JBool True \<and>
   getTask_mongo example_db bob (ObjectId ''64b7f0a1c2d3e4f5a6b7c8a1'') =
     Inl (AccessDenied ''Access denied. You can only view tasks assigned to you or created by you.'') \<and>
   getTask_memory example_store 2 1 =
     Inr \<lparr>tv_task = example_task 1 ''low'' ''pending'' 2 1 False 10,
          tv_assignee = Some \<lparr>ref_id = Num 2, ref_name = ''bob'', ref_email = ''bob@example.com'',
                              ref_avatarUrl = None\<rparr>,
          tv_createdBy = Some \<lparr>ref_id = Num 2, ref_name = ''bob'', ref_email = ''bob@example.com'',
                               ref_avatarUrl = None\<rparr>\<rparr>"
proof (intro conjI)
  show f: "findById (db_tasks example_db) (ObjectId ''64b7f0a1c2d3e4f5a6b7c8a1'')
     = Some (example_doc ''64b7f0a1c2d3e4f5a6b7c8a1'' ''low'' bob 1 False)"
    by (simp add: findById_def example_db_def example_doc_def)
  show "assignee (example_doc ''64b7f0a1c2d3e4f5a6b7c8a1'' ''low'' bob 1 False) = bob"
    "createdBy (example_doc ''64b7f0a1c2d3e4f5a6b7c8a1'' ''low'' bob 1 False) = bob"
    by (simp_all add: example_doc_def)
  show "req_checkOwnership bob (Some (example_doc ''64b7f0a1c2d3e4f5a6b7c8a1'' ''low'' bob 1 False)) = JBool True"
    by (simp add: req_checkOwnership_Some example_doc_def)
  show "getTask_mongo example_db bob (ObjectId ''64b7f0a1c2d3e4f5a6b7c8a1'') =
     Inl (AccessDenied ''Access denied. You can only view tasks assigned to you or created by you.'')"
    by (rule getTask_mongo_found) (rule f)
  show "getTask_memory example_store 2 1 =
     Inr \<lparr>tv_task = example_task 1 ''low'' ''pending'' 2 1 False 10,
          tv_assignee = Some \<lparr>ref_id = Num 2, ref_name = ''bob'', ref_email = ''bob@example.com'',
                              ref_avatarUrl = None\<rparr>,
          tv_createdBy = Some \<lparr>ref_id = Num 2, ref_name = ''bob'', ref_email = ''bob@example.com'',
                               ref_avatarUrl = None\<rparr>\<rparr>"
    by (simp add: getTask_memory_def getTask_checked_def canAccess_def tasks_findById_def
        users_findById_def example_store_def example_task_def example_user_def select_user_def
        Let_def)
qed


end
